theory Spec2Isabelle
  imports Main "HOL-Library.Sublist"
begin

section \<open>JavaScript values and objects\<close>

text \<open>
  The incident tracker stores plain JavaScript objects. A property value is a primitive
  value; a string is a list of characters, one \<^typ>\<open>char\<close> per code unit, so that
  \<open>length\<close> is the \<^verbatim>\<open>.length\<close> of the source. Numbers are the integral ones.
  Compound property values (which the validators treat like any other non-string) are
  left out of the value type.
\<close>

datatype jsval = JUndefined | JNull | JBool bool | JNum int | JStr string

text \<open>
  An object maps the names of its own properties to their values; the order of the
  properties, on which no operation of the store depends, is not kept. Reading an absent
  property gives \<^verbatim>\<open>undefined\<close> (the names read from incidents and request bodies,
  such as \<^verbatim>\<open>id\<close> and \<^verbatim>\<open>status\<close>, are no members of \<^verbatim>\<open>Object.prototype\<close>);
  the spread \<^verbatim>\<open>{...a, ...b}\<close> is \<open>a ++ b\<close>.
\<close>

type_synonym jsobj = "string \<rightharpoonup> jsval"

definition get_prop :: "jsobj \<Rightarrow> string \<Rightarrow> jsval" where
  "get_prop obj k = (case obj k of None \<Rightarrow> JUndefined | Some v \<Rightarrow> v)"

text \<open>\<^verbatim>\<open>!v\<close> is true for the falsy values.\<close>

fun falsy :: "jsval \<Rightarrow> bool" where
  "falsy JUndefined = True"
| "falsy JNull = True"
| "falsy (JBool b) = (\<not> b)"
| "falsy (JNum n) = (n = 0)"
| "falsy (JStr s) = (s = [])"

fun typeof :: "jsval \<Rightarrow> string" where
  "typeof JUndefined = ''undefined''"
| "typeof JNull = ''object''"
| "typeof (JBool b) = ''boolean''"
| "typeof (JNum n) = ''number''"
| "typeof (JStr s) = ''string''"

text \<open>\<^verbatim>\<open>v.length\<close> of a string value (only read after the \<^verbatim>\<open>typeof\<close> test).\<close>

fun str_length :: "jsval \<Rightarrow> nat" where
  "str_length (JStr s) = length s"
| "str_length _ = 0"

fun string_of_nat :: "nat \<Rightarrow> string" where
  "string_of_nat n =
     (if n < 10 then [char_of (48 + n)]
      else string_of_nat (n div 10) @ [char_of (48 + n mod 10)])"

declare string_of_nat.simps [simp del]

definition string_of_int :: "int \<Rightarrow> string" where
  "string_of_int i = (if i < 0 then CHR ''-'' # string_of_nat (nat (- i)) else string_of_nat (nat i))"

text \<open>The string conversion of template literals and of property keys.\<close>

fun to_string :: "jsval \<Rightarrow> string" where
  "to_string JUndefined = ''undefined''"
| "to_string JNull = ''null''"
| "to_string (JBool b) = (if b then ''true'' else ''false'')"
| "to_string (JNum n) = string_of_int n"
| "to_string (JStr s) = s"

text \<open>\<^verbatim>\<open>xs.join(sep)\<close> on an array of strings.\<close>

fun join :: "string \<Rightarrow> string list \<Rightarrow> string" where
  "join sep [] = []"
| "join sep [x] = x"
| "join sep (x # y # ys) = x @ sep @ join sep (y # ys)"

text \<open>
  Reading \<^verbatim>\<open>obj[key]\<close> on an object literal: an own property gives its value; a name
  that the literal does not define is looked up on \<^verbatim>\<open>Object.prototype\<close>, whose
  members are functions (and, for \<^verbatim>\<open>__proto__\<close>, the prototype object itself):
  truthy values that have no \<^verbatim>\<open>includes\<close> method. Any other name gives
  \<^verbatim>\<open>undefined\<close>.
\<close>

datatype 'a member = Missing | Own 'a | Inherited

definition object_prototype_names :: "string list" where
  "object_prototype_names =
     [''constructor'', ''__defineGetter__'', ''__defineSetter__'', ''hasOwnProperty'',
      ''__lookupGetter__'', ''__lookupSetter__'', ''isPrototypeOf'', ''propertyIsEnumerable'',
      ''toString'', ''valueOf'', ''__proto__'', ''toLocaleString'']"

definition lookup_member :: "(string \<times> 'a) list \<Rightarrow> string \<Rightarrow> 'a member" where
  "lookup_member literal k =
     (case map_of literal k of
        Some v \<Rightarrow> Own v
      | None \<Rightarrow> if k \<in> set object_prototype_names then Inherited else Missing)"

section \<open>Configuration (config.js)\<close>

definition autoSave :: bool where
  "autoSave = True"

definition statuses :: "string list" where
  "statuses = [''OPEN'', ''INVESTIGATING'', ''RESOLVED'', ''ARCHIVED'']"

definition statusTransitions :: "(string \<times> string list) list" where
  "statusTransitions =
     [(''OPEN'', [''INVESTIGATING'', ''ARCHIVED'']),
      (''INVESTIGATING'', [''RESOLVED'']),
      (''RESOLVED'', [''ARCHIVED'']),
      (''ARCHIVED'', [''OPEN''])]"

definition categories :: "string list" where
  "categories = [''IT'', ''SAFETY'', ''FACILITIES'', ''OTHER'']"

definition severities :: "string list" where
  "severities = [''LOW'', ''MEDIUM'', ''HIGH'']"

definition title_minLength :: nat where "title_minLength = 5"
definition title_maxLength :: nat where "title_maxLength = 200"
definition description_minLength :: nat where "description_minLength = 10"
definition description_maxLength :: nat where "description_maxLength = 2000"

section \<open>Validation (utils/validate.js)\<close>

datatype js_error = TypeError string | Error string

text \<open>
  The result of \<^verbatim>\<open>validateCreateIncident\<close>: the source's \<^verbatim>\<open>{ok, errors, value}\<close>
  (\<open>is_ok\<close>, \<open>errors\<close>, \<open>sanitized\<close>).
\<close>

record validation =
  is_ok :: bool
  errors :: "string list"
  sanitized :: jsobj

definition title_errors :: "jsobj \<Rightarrow> string list" where
  "title_errors body =
     (let title = get_prop body ''title'' in
      if falsy title \<or> typeof title \<noteq> ''string'' then [''Title is required'']
      else if str_length title < title_minLength then
        [''Title must be at least '' @ string_of_nat title_minLength @ '' characters'']
      else if str_length title > title_maxLength then
        [''Title must not exceed '' @ string_of_nat title_maxLength @ '' characters'']
      else [])"

definition description_errors :: "jsobj \<Rightarrow> string list" where
  "description_errors body =
     (let description = get_prop body ''description'' in
      if falsy description \<or> typeof description \<noteq> ''string'' then [''Description is required'']
      else if str_length description < description_minLength then
        [''Description must be at least '' @ string_of_nat description_minLength @ '' characters'']
      else if str_length description > description_maxLength then
        [''Description must not exceed '' @ string_of_nat description_maxLength @ '' characters'']
      else [])"

definition category_errors :: "jsobj \<Rightarrow> string list" where
  "category_errors body =
     (if get_prop body ''category'' \<notin> set (map JStr categories)
      then [''Invalid category. Must be one of: '' @ join '', '' categories] else [])"

definition severity_errors :: "jsobj \<Rightarrow> string list" where
  "severity_errors body =
     (if get_prop body ''severity'' \<notin> set (map JStr severities)
      then [''Invalid severity. Must be one of: '' @ join '', '' severities] else [])"

definition validateCreateIncident :: "jsobj \<Rightarrow> validation" where
  "validateCreateIncident body =
     (let errors = title_errors body @ description_errors body
                   @ category_errors body @ severity_errors body
      in \<lparr>is_ok = (length errors = 0),
          errors = errors,
          sanitized = [''title'' \<mapsto> get_prop body ''title'',
                       ''description'' \<mapsto> get_prop body ''description'',
                       ''category'' \<mapsto> get_prop body ''category'',
                       ''severity'' \<mapsto> get_prop body ''severity'']\<rparr>)"

text \<open>
  The result of the three status validators: the source's \<^verbatim>\<open>{ok, error}\<close>,
  \<^verbatim>\<open>{ok, next}\<close> or \<^verbatim>\<open>{ok}\<close>; a property the object literal does not set reads as
  \<^verbatim>\<open>undefined\<close>.
\<close>

record check =
  ok :: bool
  error :: jsval
  nxt :: jsval

definition validateStatusChange :: "jsval \<Rightarrow> jsval \<Rightarrow> js_error + check" where
  "validateStatusChange current next =
     (let transitions = statusTransitions in
      case lookup_member transitions (to_string current) of
        Missing \<Rightarrow>
          Inr \<lparr>ok = False,
               error = JStr (''Invalid current status: '' @ to_string current),
               nxt = JUndefined\<rparr>
      | Inherited \<Rightarrow> Inl (TypeError ''transitions[current].includes is not a function'')
      | Own allowed \<Rightarrow>
          if next \<notin> set (map JStr allowed) then
            Inr \<lparr>ok = False,
                 error = JStr (''Invalid status transition from '' @ to_string current
                               @ '' to '' @ to_string next
                               @ ''. Allowed: '' @ join '', '' allowed),
                 nxt = JUndefined\<rparr>
          else Inr \<lparr>ok = True, error = JUndefined, nxt = next\<rparr>)"

definition validateArchive :: "jsval \<Rightarrow> check" where
  "validateArchive currentStatus =
     (if currentStatus \<noteq> JStr ''OPEN'' \<and> currentStatus \<noteq> JStr ''RESOLVED'' then
        \<lparr>ok = False,
         error = JStr ''Only incidents in OPEN or RESOLVED status can be archived'',
         nxt = JUndefined\<rparr>
      else \<lparr>ok = True, error = JUndefined, nxt = JUndefined\<rparr>)"

definition validateReset :: "jsval \<Rightarrow> check" where
  "validateReset currentStatus =
     (if currentStatus \<noteq> JStr ''ARCHIVED'' then
        \<lparr>ok = False,
         error = JStr ''Only archived incidents can be reset to OPEN status'',
         nxt = JUndefined\<rparr>
      else \<lparr>ok = True, error = JUndefined, nxt = JUndefined\<rparr>)"

section \<open>The incident store (store/incidents.store.js)\<close>

text \<open>
  The data file at \<^verbatim>\<open>config.storage.incidentsFilePath\<close>: absent (\<^verbatim>\<open>ENOENT\<close>),
  unreadable or not parsable, or holding a JSON array of objects. The text layer of
  \<^verbatim>\<open>JSON.stringify\<close> and \<^verbatim>\<open>JSON.parse\<close> is abstracted to the JSON document: what
  \<^verbatim>\<open>JSON.stringify\<close> does to the data is to leave out every property whose value is
  \<^verbatim>\<open>undefined\<close>. A file that holds another JSON document than an array of objects,
  which the store never writes, is outside the model. A failed write leaves the file as
  it was.
\<close>

datatype datafile = Absent | Unreadable | Json "jsobj list"

definition json_object :: "jsobj \<Rightarrow> jsobj" where
  "json_object obj = (\<lambda>k. case obj k of Some JUndefined \<Rightarrow> None | r \<Rightarrow> r)"

text \<open>
  The module state: the two module-level variables, together with the part of the
  environment the module acts on: the data file, and whether \<^verbatim>\<open>fs.writeFile\<close>
  succeeds.
\<close>

record store =
  incidents :: "jsobj list"
  isInitialized :: bool
  disk :: datafile
  writable :: bool

text \<open>The state of the module when the process starts, before any call.\<close>

definition module_start :: "datafile \<Rightarrow> bool \<Rightarrow> store" where
  "module_start d w = \<lparr>incidents = [], isInitialized = False, disk = d, writable = w\<rparr>"

definition saveToFile :: "store \<Rightarrow> (js_error + unit) \<times> store" where
  "saveToFile st =
     (if writable st then (Inr (), st\<lparr>disk := Json (map json_object (incidents st))\<rparr>)
      else (Inl (Error ''Failed to save incidents data''), st))"

definition initializeStore :: "store \<Rightarrow> (js_error + unit) \<times> store" where
  "initializeStore st =
     (if isInitialized st then (Inr (), st)
      else case disk st of
        Json data \<Rightarrow> (Inr (), st\<lparr>incidents := data, isInitialized := True\<rparr>)
      | Absent \<Rightarrow>
          (case saveToFile (st\<lparr>incidents := []\<rparr>) of
             (Inl e, st') \<Rightarrow> (Inl e, st')
           | (Inr u, st') \<Rightarrow> (Inr (), st'\<lparr>isInitialized := True\<rparr>))
      | Unreadable \<Rightarrow> (Inr (), st\<lparr>incidents := [], isInitialized := True\<rparr>))"

definition listAll :: "store \<Rightarrow> bool \<Rightarrow> jsobj list" where
  "listAll st includeArchived =
     (if includeArchived then incidents st
      else filter (\<lambda>i. get_prop i ''status'' \<noteq> JStr ''ARCHIVED'') (incidents st))"

definition findById :: "store \<Rightarrow> jsval \<Rightarrow> jsobj option" where
  "findById st id' = find (\<lambda>i. get_prop i ''id'' = id') (incidents st)"

text \<open>
  \<^verbatim>\<open>findById\<close> returns a reference to the first element of the array with the given
  id, and \<^verbatim>\<open>incident[k] = v\<close> writes through that reference: the array element itself
  changes.
\<close>

fun assign_found :: "jsval \<Rightarrow> string \<Rightarrow> jsval \<Rightarrow> jsobj list \<Rightarrow> jsobj list" where
  "assign_found id' k v [] = []"
| "assign_found id' k v (i # rest) =
     (if get_prop i ''id'' = id' then i(k \<mapsto> v) # rest else i # assign_found id' k v rest)"

text \<open>
  \<^verbatim>\<open>randomUUID()\<close> and \<^verbatim>\<open>new Date().toISOString()\<close> are read from the environment:
  their results are the arguments \<open>uuid\<close> and \<open>now\<close>.
\<close>

text \<open>
  The object literal of \<^verbatim>\<open>createIncident\<close>:
  \<^verbatim>\<open>{ id: randomUUID(), ...data, status: "OPEN", reportedAt: new Date().toISOString() }\<close>.
  Later entries of the literal replace earlier ones of the same name.
\<close>

definition new_incident :: "string \<Rightarrow> string \<Rightarrow> jsobj \<Rightarrow> jsobj" where
  "new_incident uuid now data =
     ([''id'' \<mapsto> JStr uuid] ++ data)
       (''status'' \<mapsto> JStr ''OPEN'', ''reportedAt'' \<mapsto> JStr now)"

definition createIncident :: "store \<Rightarrow> string \<Rightarrow> string \<Rightarrow> jsobj \<Rightarrow> (js_error + jsobj) \<times> store" where
  "createIncident st uuid now data =
     (let incident = new_incident uuid now data;
          st1 = st\<lparr>incidents := incidents st @ [incident]\<rparr>
      in if autoSave then
           (case saveToFile st1 of
              (Inl e, st2) \<Rightarrow> (Inl e, st2)
            | (Inr u, st2) \<Rightarrow> (Inr incident, st2))
         else (Inr incident, st1))"

definition updateStatus :: "store \<Rightarrow> jsval \<Rightarrow> jsval \<Rightarrow> (js_error + jsobj option) \<times> store" where
  "updateStatus st id' status =
     (case findById st id' of
        None \<Rightarrow> (Inr None, st)
      | Some incident \<Rightarrow>
          let st1 = st\<lparr>incidents := assign_found id' ''status'' status (incidents st)\<rparr>;
              incident' = incident(''status'' \<mapsto> status)
          in if autoSave then
               (case saveToFile st1 of
                  (Inl e, st2) \<Rightarrow> (Inl e, st2)
                | (Inr u, st2) \<Rightarrow> (Inr (Some incident'), st2))
             else (Inr (Some incident'), st1))"

definition archiveIncident :: "store \<Rightarrow> jsval \<Rightarrow> (js_error + jsobj option) \<times> store" where
  "archiveIncident st id' =
     (case findById st id' of
        None \<Rightarrow> (Inr None, st)
      | Some incident \<Rightarrow>
          if get_prop incident ''status'' \<noteq> JStr ''OPEN''
             \<and> get_prop incident ''status'' \<noteq> JStr ''RESOLVED''
          then (Inr None, st)
          else
            let st1 = st\<lparr>incidents := assign_found id' ''status'' (JStr ''ARCHIVED'') (incidents st)\<rparr>;
                incident' = incident(''status'' \<mapsto> JStr ''ARCHIVED'')
            in if autoSave then
                 (case saveToFile st1 of
                    (Inl e, st2) \<Rightarrow> (Inl e, st2)
                  | (Inr u, st2) \<Rightarrow> (Inr (Some incident'), st2))
               else (Inr (Some incident'), st1))"

definition resetArchivedIncident :: "store \<Rightarrow> jsval \<Rightarrow> (js_error + jsobj option) \<times> store" where
  "resetArchivedIncident st id' =
     (case findById st id' of
        None \<Rightarrow> (Inr None, st)
      | Some incident \<Rightarrow>
          if get_prop incident ''status'' \<noteq> JStr ''ARCHIVED''
          then (Inr None, st)
          else
            let st1 = st\<lparr>incidents := assign_found id' ''status'' (JStr ''OPEN'') (incidents st)\<rparr>;
                incident' = incident(''status'' \<mapsto> JStr ''OPEN'')
            in if autoSave then
                 (case saveToFile st1 of
                    (Inl e, st2) \<Rightarrow> (Inl e, st2)
                  | (Inr u, st2) \<Rightarrow> (Inr (Some incident'), st2))
               else (Inr (Some incident'), st1))"

definition save :: "store \<Rightarrow> (js_error + unit) \<times> store" where
  "save st = saveToFile st"

section \<open>The HTTP handlers (routes/incidents.routes.js)\<close>

text \<open>
  A response is the status code and the JSON body given to \<^verbatim>\<open>res.json\<close>.
\<close>

record summary =
  totalRows :: nat
  created :: nat
  skipped :: nat

datatype body =
    ErrorBody jsval
  | ErrorsBody "string list"
  | IncidentBody jsobj
  | NullBody
  | ListBody "jsobj list"
  | SummaryBody summary

record response =
  code :: nat
  body :: body

text \<open>\<^verbatim>\<open>GET /\<close>; \<open>q\<close> is \<^verbatim>\<open>req.query.includeArchived\<close>.\<close>

definition get_incidents :: "store \<Rightarrow> jsval \<Rightarrow> response \<times> store" where
  "get_incidents st q =
     (let includeArchived = (q = JStr ''true'')
      in (\<lparr>code = 200, body = ListBody (listAll st includeArchived)\<rparr>, st))"

text \<open>\<^verbatim>\<open>GET /:id\<close>\<close>

definition get_incident :: "store \<Rightarrow> string \<Rightarrow> response \<times> store" where
  "get_incident st id' =
     (case findById st (JStr id') of
        None \<Rightarrow> (\<lparr>code = 404, body = ErrorBody (JStr ''Incident not found'')\<rparr>, st)
      | Some incident \<Rightarrow> (\<lparr>code = 200, body = IncidentBody incident\<rparr>, st))"

text \<open>\<^verbatim>\<open>POST /\<close>; \<open>reqbody\<close> is \<^verbatim>\<open>req.body\<close>.\<close>

definition post_incident :: "store \<Rightarrow> string \<Rightarrow> string \<Rightarrow> jsobj \<Rightarrow> response \<times> store" where
  "post_incident st uuid now reqbody =
     (let result = validateCreateIncident reqbody in
      if \<not> is_ok result then (\<lparr>code = 400, body = ErrorsBody (errors result)\<rparr>, st)
      else (case createIncident st uuid now (sanitized result) of
              (Inl e, st') \<Rightarrow>
                (\<lparr>code = 500, body = ErrorBody (JStr ''Failed to create incident'')\<rparr>, st')
            | (Inr incident, st') \<Rightarrow> (\<lparr>code = 201, body = IncidentBody incident\<rparr>, st')))"

text \<open>\<^verbatim>\<open>PATCH /:id/status\<close>\<close>

definition patch_status :: "store \<Rightarrow> string \<Rightarrow> jsobj \<Rightarrow> response \<times> store" where
  "patch_status st id' reqbody =
     (case findById st (JStr id') of
        None \<Rightarrow> (\<lparr>code = 404, body = ErrorBody (JStr ''Incident not found'')\<rparr>, st)
      | Some incident \<Rightarrow>
          (case validateStatusChange (get_prop incident ''status'') (get_prop reqbody ''status'') of
             Inl e \<Rightarrow>
               (\<lparr>code = 500, body = ErrorBody (JStr ''Failed to update incident status'')\<rparr>, st)
           | Inr check \<Rightarrow>
               if \<not> ok check then (\<lparr>code = 400, body = ErrorBody (error check)\<rparr>, st)
               else (case updateStatus st (get_prop incident ''id'') (nxt check) of
                       (Inl e, st') \<Rightarrow>
                         (\<lparr>code = 500,
                           body = ErrorBody (JStr ''Failed to update incident status'')\<rparr>, st')
                     | (Inr None, st') \<Rightarrow> (\<lparr>code = 200, body = NullBody\<rparr>, st')
                     | (Inr (Some updated), st') \<Rightarrow>
                         (\<lparr>code = 200, body = IncidentBody updated\<rparr>, st'))))"

text \<open>\<^verbatim>\<open>POST /:id/archive\<close>\<close>

definition post_archive :: "store \<Rightarrow> string \<Rightarrow> response \<times> store" where
  "post_archive st id' =
     (case findById st (JStr id') of
        None \<Rightarrow> (\<lparr>code = 404, body = ErrorBody (JStr ''Incident not found'')\<rparr>, st)
      | Some incident \<Rightarrow>
          (let check = validateArchive (get_prop incident ''status'') in
           if \<not> ok check then (\<lparr>code = 400, body = ErrorBody (error check)\<rparr>, st)
           else (case archiveIncident st (get_prop incident ''id'') of
                   (Inl e, st') \<Rightarrow>
                     (\<lparr>code = 500, body = ErrorBody (JStr ''Failed to archive incident'')\<rparr>, st')
                 | (Inr None, st') \<Rightarrow>
                     (\<lparr>code = 400, body = ErrorBody (JStr ''Failed to archive incident'')\<rparr>, st')
                 | (Inr (Some archived), st') \<Rightarrow>
                     (\<lparr>code = 200, body = IncidentBody archived\<rparr>, st'))))"

text \<open>\<^verbatim>\<open>POST /:id/reset\<close>\<close>

definition post_reset :: "store \<Rightarrow> string \<Rightarrow> response \<times> store" where
  "post_reset st id' =
     (case findById st (JStr id') of
        None \<Rightarrow> (\<lparr>code = 404, body = ErrorBody (JStr ''Incident not found'')\<rparr>, st)
      | Some incident \<Rightarrow>
          (let check = validateReset (get_prop incident ''status'') in
           if \<not> ok check then (\<lparr>code = 400, body = ErrorBody (error check)\<rparr>, st)
           else (case resetArchivedIncident st (get_prop incident ''id'') of
                   (Inl e, st') \<Rightarrow>
                     (\<lparr>code = 500, body = ErrorBody (JStr ''Failed to reset incident'')\<rparr>, st')
                 | (Inr None, st') \<Rightarrow>
                     (\<lparr>code = 400, body = ErrorBody (JStr ''Failed to reset incident'')\<rparr>, st')
                 | (Inr (Some reset), st') \<Rightarrow>
                     (\<lparr>code = 200, body = IncidentBody reset\<rparr>, st'))))"

text \<open>
  \<^verbatim>\<open>POST /bulk-upload\<close>. The loop over the parsed records carries the two counters and
  the store; a failed save leaves the loop by the exception. The \<open>n\<close>-th call of
  \<^verbatim>\<open>createIncident\<close> in the loop reads the id and the time \<open>gen n\<close> from the
  environment.
\<close>

fun bulk_rows ::
  "(nat \<Rightarrow> string \<times> string) \<Rightarrow> jsobj list \<Rightarrow> nat \<Rightarrow> nat \<Rightarrow> store
     \<Rightarrow> (js_error + nat \<times> nat) \<times> store" where
  "bulk_rows gen [] n_created n_skipped st = (Inr (n_created, n_skipped), st)"
| "bulk_rows gen (row # records) n_created n_skipped st =
     (let result = validateCreateIncident row in
      if \<not> is_ok result then bulk_rows gen records n_created (n_skipped + 1) st
      else (case createIncident st (fst (gen 0)) (snd (gen 0)) (sanitized result) of
              (Inl e, st') \<Rightarrow> (Inl e, st')
            | (Inr incident, st') \<Rightarrow>
                bulk_rows (\<lambda>n. gen (Suc n)) records (n_created + 1) n_skipped st'))"

text \<open>
  The file of the request: none, one for which \<^verbatim>\<open>parseCsvBuffer\<close> (utils/csv.js) fails,
  or one that it parses into records.
\<close>

datatype upload = NoFile | Unparsable | Records "jsobj list"

definition bulk_upload ::
  "store \<Rightarrow> (nat \<Rightarrow> string \<times> string) \<Rightarrow> upload \<Rightarrow> response \<times> store" where
  "bulk_upload st gen file =
     (case file of
        NoFile \<Rightarrow> (\<lparr>code = 400, body = ErrorBody (JStr ''No file uploaded'')\<rparr>, st)
      | Unparsable \<Rightarrow>
          (\<lparr>code = 500, body = ErrorBody (JStr ''Failed to process bulk upload'')\<rparr>, st)
      | Records records \<Rightarrow>
          (case bulk_rows gen records 0 0 st of
             (Inl e, st') \<Rightarrow>
               (\<lparr>code = 500, body = ErrorBody (JStr ''Failed to process bulk upload'')\<rparr>, st')
           | (Inr (n_created, n_skipped), st') \<Rightarrow>
               (\<lparr>code = 200,
                 body = SummaryBody \<lparr>totalRows = length records, created = n_created,
                                     skipped = n_skipped\<rparr>\<rparr>, st')))"

text \<open>The requests the router serves, and its dispatch.\<close>

datatype request =
    GetIncidents jsval
  | GetIncident string
  | PostIncident jsobj
  | PatchStatus string jsobj
  | PostArchive string
  | PostReset string
  | PostBulkUpload upload

fun router :: "store \<Rightarrow> (nat \<Rightarrow> string \<times> string) \<Rightarrow> request \<Rightarrow> response \<times> store" where
  "router st gen (GetIncidents q) = get_incidents st q"
| "router st gen (GetIncident id') = get_incident st id'"
| "router st gen (PostIncident reqbody) = post_incident st (fst (gen 0)) (snd (gen 0)) reqbody"
| "router st gen (PatchStatus id' reqbody) = patch_status st id' reqbody"
| "router st gen (PostArchive id') = post_archive st id'"
| "router st gen (PostReset id') = post_reset st id'"
| "router st gen (PostBulkUpload file) = bulk_upload st gen file"

text \<open>
  The workflow graph in the words of the specification: OPEN to INVESTIGATING or
  ARCHIVED, INVESTIGATING to RESOLVED, RESOLVED to ARCHIVED, ARCHIVED to OPEN.
\<close>

definition workflow_edge :: "jsval \<Rightarrow> jsval \<Rightarrow> bool" where
  "workflow_edge current next =
     ((current, next) \<in>
        {(JStr ''OPEN'', JStr ''INVESTIGATING''), (JStr ''OPEN'', JStr ''ARCHIVED''),
         (JStr ''INVESTIGATING'', JStr ''RESOLVED''), (JStr ''RESOLVED'', JStr ''ARCHIVED''),
         (JStr ''ARCHIVED'', JStr ''OPEN'')})"

text \<open>
  Between two states of the collection, every incident that was there is still at its
  place, with its status unchanged or moved along one edge of the workflow graph.
\<close>

definition status_step :: "jsobj \<Rightarrow> jsobj \<Rightarrow> bool" where
  "status_step before after \<longleftrightarrow>
     get_prop after ''status'' = get_prop before ''status''
     \<or> workflow_edge (get_prop before ''status'') (get_prop after ''status'')"

definition follows_workflow :: "store \<Rightarrow> store \<Rightarrow> bool" where
  "follows_workflow st st' \<longleftrightarrow>
     length (incidents st) \<le> length (incidents st')
     \<and> list_all2 status_step (incidents st) (take (length (incidents st)) (incidents st'))"

text \<open>No property of the object has the value \<^verbatim>\<open>undefined\<close>.\<close>

definition json_safe :: "jsobj \<Rightarrow> bool" where
  "json_safe obj \<longleftrightarrow> (\<forall>k. obj k \<noteq> Some JUndefined)"

section \<open>Auxiliary facts\<close>

lemma get_prop_upd: "get_prop (obj(k \<mapsto> v)) k' = (if k' = k then v else get_prop obj k')"
  by (simp add: get_prop_def)

lemma length_assign_found: "length (assign_found i k v xs) = length xs"
  by (induction xs) auto

lemma find_assign_found:
  "k \<noteq> ''id'' \<Longrightarrow>
   find (\<lambda>i. get_prop i ''id'' = j) (assign_found i k v xs) =
     (if j = i then map_option (\<lambda>obj. obj(k \<mapsto> v)) (find (\<lambda>i. get_prop i ''id'' = j) xs)
      else find (\<lambda>i. get_prop i ''id'' = j) xs)"
  by (induction xs) (auto simp: get_prop_upd)

lemma assign_found_absent:
  "find (\<lambda>i. get_prop i ''id'' = i') xs = None \<Longrightarrow> assign_found i' k v xs = xs"
  by (induction xs) (auto split: if_splits)

text \<open>The decimal numeral of a number ends in a digit, so it is no status name.\<close>

lemma string_of_nat_last:
  "string_of_nat n \<noteq> [] \<and> (of_char (last (string_of_nat n)) :: nat) = 48 + n mod 10"
proof (induction n rule: string_of_nat.induct)
  case (1 n)
  show ?case
    by (subst (1 2) string_of_nat.simps) simp
qed

lemma string_of_int_last: "(of_char (last (string_of_int i)) :: nat) < 58"
proof -
  have "(of_char (last (string_of_nat n)) :: nat) < 58" for n
    using string_of_nat_last [of n] by simp
  then show ?thesis
    using string_of_nat_last by (simp add: string_of_int_def)
qed

lemma string_of_int_no_status:
  "string_of_int i \<noteq> ''OPEN''" "string_of_int i \<noteq> ''INVESTIGATING''"
  "string_of_int i \<noteq> ''RESOLVED''" "string_of_int i \<noteq> ''ARCHIVED''"
  using string_of_int_last [of i] by auto

text \<open>
  On the four statuses of the configuration the transition check never throws, and it
  allows exactly the edges of the workflow graph.
\<close>

lemma validateStatusChange_known:
  "s \<in> set statuses \<Longrightarrow>
   \<exists>c. validateStatusChange (JStr s) next = Inr c \<and> (ok c \<longleftrightarrow> workflow_edge (JStr s) next)
       \<and> (ok c \<longrightarrow> nxt c = next)"
  by (auto simp: validateStatusChange_def lookup_member_def statusTransitions_def
      statuses_def workflow_edge_def)

text \<open>Whatever the current value, an allowed transition is an edge of the workflow graph.\<close>

lemma validateStatusChange_ok_edge:
  "validateStatusChange current next = Inr c \<Longrightarrow> ok c \<Longrightarrow>
     workflow_edge current next \<and> nxt c = next"
  by (cases current)
    (auto simp: validateStatusChange_def lookup_member_def statusTransitions_def
      workflow_edge_def Let_def string_of_int_no_status
      split: member.splits if_splits option.splits)

section \<open>The transition check on a current value outside the configuration\<close>

text \<open>
  Claim C2. The transition check is to allow exactly the edges of the workflow graph and
  to deny, without crashing, every current value that is not one of the four statuses.
  For the current value \<^verbatim>\<open>"constructor"\<close> the lookup \<^verbatim>\<open>transitions[current]\<close>
  finds the member inherited from \<^verbatim>\<open>Object.prototype\<close>, the guard for an unknown
  status is passed, and the call of \<^verbatim>\<open>includes\<close> throws a TypeError instead of
  returning a denial.
\<close>

theorem validateStatusChange_constructor_throws:
  "validateStatusChange (JStr ''constructor'') (JStr ''OPEN'')
     = Inl (TypeError ''transitions[current].includes is not a function'')"
  by (simp add: validateStatusChange_def lookup_member_def statusTransitions_def
      object_prototype_names_def)

section \<open>Facts about the store operations\<close>

lemma findById_id: "findById st i = Some incident \<Longrightarrow> get_prop incident ''id'' = i"
  by (auto simp: findById_def find_Some_iff)

lemma findById_assign_status:
  "findById st i = Some incident \<Longrightarrow>
   findById (st\<lparr>incidents := assign_found i ''status'' v (incidents st)\<rparr>) i
     = Some (incident(''status'' \<mapsto> v))"
  by (simp add: findById_def find_assign_found)

lemma findById_disk [simp]: "findById (st\<lparr>disk := d\<rparr>) i = findById st i"
  by (simp add: findById_def)

lemma archiveIncident_accept:
  "findById st i = Some incident \<Longrightarrow>
   get_prop incident ''status'' = JStr ''OPEN'' \<or> get_prop incident ''status'' = JStr ''RESOLVED'' \<Longrightarrow>
   archiveIncident st i =
     (if writable st
      then (Inr (Some (incident(''status'' \<mapsto> JStr ''ARCHIVED''))),
            st\<lparr>incidents := assign_found i ''status'' (JStr ''ARCHIVED'') (incidents st),
               disk := Json (map json_object
                        (assign_found i ''status'' (JStr ''ARCHIVED'') (incidents st)))\<rparr>)
      else (Inl (Error ''Failed to save incidents data''),
            st\<lparr>incidents := assign_found i ''status'' (JStr ''ARCHIVED'') (incidents st)\<rparr>))"
  by (auto simp: archiveIncident_def saveToFile_def autoSave_def Let_def)

lemma archiveIncident_reject:
  "findById st i = Some incident \<Longrightarrow>
   get_prop incident ''status'' \<noteq> JStr ''OPEN'' \<Longrightarrow> get_prop incident ''status'' \<noteq> JStr ''RESOLVED'' \<Longrightarrow>
   archiveIncident st i = (Inr None, st)"
  by (simp add: archiveIncident_def)

lemma archiveIncident_absent:
  "findById st i = None \<Longrightarrow> archiveIncident st i = (Inr None, st)"
  by (simp add: archiveIncident_def)

lemma resetArchivedIncident_accept:
  "findById st i = Some incident \<Longrightarrow>
   get_prop incident ''status'' = JStr ''ARCHIVED'' \<Longrightarrow>
   resetArchivedIncident st i =
     (if writable st
      then (Inr (Some (incident(''status'' \<mapsto> JStr ''OPEN''))),
            st\<lparr>incidents := assign_found i ''status'' (JStr ''OPEN'') (incidents st),
               disk := Json (map json_object
                        (assign_found i ''status'' (JStr ''OPEN'') (incidents st)))\<rparr>)
      else (Inl (Error ''Failed to save incidents data''),
            st\<lparr>incidents := assign_found i ''status'' (JStr ''OPEN'') (incidents st)\<rparr>))"
  by (auto simp: resetArchivedIncident_def saveToFile_def autoSave_def Let_def)

lemma resetArchivedIncident_reject:
  "findById st i = Some incident \<Longrightarrow>
   get_prop incident ''status'' \<noteq> JStr ''ARCHIVED'' \<Longrightarrow>
   resetArchivedIncident st i = (Inr None, st)"
  by (simp add: resetArchivedIncident_def)

lemma resetArchivedIncident_absent:
  "findById st i = None \<Longrightarrow> resetArchivedIncident st i = (Inr None, st)"
  by (simp add: resetArchivedIncident_def)

lemma updateStatus_found:
  "findById st i = Some incident \<Longrightarrow>
   updateStatus st i v =
     (if writable st
      then (Inr (Some (incident(''status'' \<mapsto> v))),
            st\<lparr>incidents := assign_found i ''status'' v (incidents st),
               disk := Json (map json_object (assign_found i ''status'' v (incidents st)))\<rparr>)
      else (Inl (Error ''Failed to save incidents data''),
            st\<lparr>incidents := assign_found i ''status'' v (incidents st)\<rparr>))"
  by (auto simp: updateStatus_def saveToFile_def autoSave_def Let_def)

section \<open>Archive and reset are gated by the current status\<close>

text \<open>
  Claim C3. For an incident present in the store, \<^verbatim>\<open>archiveIncident\<close> is accepted if
  and only if its status is OPEN or RESOLVED, and then the stored status is ARCHIVED;
  \<^verbatim>\<open>resetArchivedIncident\<close> is accepted if and only if its status is ARCHIVED, and
  then the stored status is OPEN. A rejected call returns \<^verbatim>\<open>null\<close> and leaves the
  whole store, the incident with all its fields included, as it was. An accepted call
  returns the updated record when the write of the data file succeeds (a failed write is
  raised as an error after the status has been set in memory).
\<close>

theorem archive_reset_by_status:
  assumes found: "findById st i = Some incident"
  shows
    "(get_prop incident ''status'' = JStr ''OPEN'' \<or> get_prop incident ''status'' = JStr ''RESOLVED''
        \<longrightarrow> findById (snd (archiveIncident st i)) i = Some (incident(''status'' \<mapsto> JStr ''ARCHIVED''))
          \<and> (writable st \<longrightarrow>
               fst (archiveIncident st i) = Inr (Some (incident(''status'' \<mapsto> JStr ''ARCHIVED'')))))
     \<and> (get_prop incident ''status'' \<noteq> JStr ''OPEN'' \<and> get_prop incident ''status'' \<noteq> JStr ''RESOLVED''
        \<longrightarrow> archiveIncident st i = (Inr None, st))
     \<and> (writable st \<longrightarrow>
          ((\<exists>r. fst (archiveIncident st i) = Inr (Some r))
             \<longleftrightarrow> get_prop incident ''status'' = JStr ''OPEN''
                 \<or> get_prop incident ''status'' = JStr ''RESOLVED''))
     \<and> (get_prop incident ''status'' = JStr ''ARCHIVED''
        \<longrightarrow> findById (snd (resetArchivedIncident st i)) i = Some (incident(''status'' \<mapsto> JStr ''OPEN''))
          \<and> (writable st \<longrightarrow>
               fst (resetArchivedIncident st i) = Inr (Some (incident(''status'' \<mapsto> JStr ''OPEN'')))))
     \<and> (get_prop incident ''status'' \<noteq> JStr ''ARCHIVED''
        \<longrightarrow> resetArchivedIncident st i = (Inr None, st))
     \<and> (writable st \<longrightarrow>
          ((\<exists>r. fst (resetArchivedIncident st i) = Inr (Some r))
             \<longleftrightarrow> get_prop incident ''status'' = JStr ''ARCHIVED''))"
proof -
  have a1: "findById (snd (archiveIncident st i)) i = Some (incident(''status'' \<mapsto> JStr ''ARCHIVED''))
            \<and> (writable st \<longrightarrow>
               fst (archiveIncident st i) = Inr (Some (incident(''status'' \<mapsto> JStr ''ARCHIVED''))))"
    if "get_prop incident ''status'' = JStr ''OPEN'' \<or> get_prop incident ''status'' = JStr ''RESOLVED''"
    using archiveIncident_accept [OF found that] findById_assign_status [OF found]
    by simp
  have a2: "archiveIncident st i = (Inr None, st)"
    if "get_prop incident ''status'' \<noteq> JStr ''OPEN'' \<and> get_prop incident ''status'' \<noteq> JStr ''RESOLVED''"
    using archiveIncident_reject [OF found] that by simp
  have r1: "findById (snd (resetArchivedIncident st i)) i = Some (incident(''status'' \<mapsto> JStr ''OPEN''))
            \<and> (writable st \<longrightarrow>
               fst (resetArchivedIncident st i) = Inr (Some (incident(''status'' \<mapsto> JStr ''OPEN''))))"
    if "get_prop incident ''status'' = JStr ''ARCHIVED''"
    using resetArchivedIncident_accept [OF found that] findById_assign_status [OF found]
    by simp
  have r2: "resetArchivedIncident st i = (Inr None, st)"
    if "get_prop incident ''status'' \<noteq> JStr ''ARCHIVED''"
    using resetArchivedIncident_reject [OF found that] .
  have a3: "(\<exists>r. fst (archiveIncident st i) = Inr (Some r))
             \<longleftrightarrow> get_prop incident ''status'' = JStr ''OPEN''
                 \<or> get_prop incident ''status'' = JStr ''RESOLVED''" if "writable st"
    using a1 a2 that by (cases "get_prop incident ''status'' = JStr ''OPEN''
                 \<or> get_prop incident ''status'' = JStr ''RESOLVED''") auto
  have r3: "(\<exists>r. fst (resetArchivedIncident st i) = Inr (Some r))
             \<longleftrightarrow> get_prop incident ''status'' = JStr ''ARCHIVED''" if "writable st"
    using r1 r2 that by (cases "get_prop incident ''status'' = JStr ''ARCHIVED''") auto
  show ?thesis
    using a1 a2 a3 r1 r2 r3 by blast
qed

theorem archive_reset_by_status_witness:
  "findById \<lparr>incidents = [[''id'' \<mapsto> JStr ''a'', ''status'' \<mapsto> JStr ''OPEN'']],
             isInitialized = True, disk = Absent, writable = True\<rparr> (JStr ''a'')
     = Some [''id'' \<mapsto> JStr ''a'', ''status'' \<mapsto> JStr ''OPEN'']
   \<and> fst (archiveIncident \<lparr>incidents = [[''id'' \<mapsto> JStr ''a'', ''status'' \<mapsto> JStr ''OPEN'']],
             isInitialized = True, disk = Absent, writable = True\<rparr> (JStr ''a''))
     = Inr (Some ([''id'' \<mapsto> JStr ''a'', ''status'' \<mapsto> JStr ''OPEN''](''status'' \<mapsto> JStr ''ARCHIVED'')))
   \<and> resetArchivedIncident \<lparr>incidents = [[''id'' \<mapsto> JStr ''a'', ''status'' \<mapsto> JStr ''OPEN'']],
             isInitialized = True, disk = Absent, writable = True\<rparr> (JStr ''a'')
     = (Inr None, \<lparr>incidents = [[''id'' \<mapsto> JStr ''a'', ''status'' \<mapsto> JStr ''OPEN'']],
             isInitialized = True, disk = Absent, writable = True\<rparr>)
   \<and> findById \<lparr>incidents = [[''id'' \<mapsto> JStr ''b'', ''status'' \<mapsto> JStr ''ARCHIVED'']],
             isInitialized = True, disk = Absent, writable = True\<rparr> (JStr ''b'')
     = Some [''id'' \<mapsto> JStr ''b'', ''status'' \<mapsto> JStr ''ARCHIVED'']
   \<and> fst (resetArchivedIncident \<lparr>incidents = [[''id'' \<mapsto> JStr ''b'', ''status'' \<mapsto> JStr ''ARCHIVED'']],
             isInitialized = True, disk = Absent, writable = True\<rparr> (JStr ''b''))
     = Inr (Some ([''id'' \<mapsto> JStr ''b'', ''status'' \<mapsto> JStr ''ARCHIVED''](''status'' \<mapsto> JStr ''OPEN'')))
   \<and> archiveIncident \<lparr>incidents = [[''id'' \<mapsto> JStr ''b'', ''status'' \<mapsto> JStr ''ARCHIVED'']],
             isInitialized = True, disk = Absent, writable = True\<rparr> (JStr ''b'')
     = (Inr None, \<lparr>incidents = [[''id'' \<mapsto> JStr ''b'', ''status'' \<mapsto> JStr ''ARCHIVED'']],
             isInitialized = True, disk = Absent, writable = True\<rparr>)"
proof -
  let ?A = "[''id'' \<mapsto> JStr ''a'', ''status'' \<mapsto> JStr ''OPEN'']"
  let ?B = "[''id'' \<mapsto> JStr ''b'', ''status'' \<mapsto> JStr ''ARCHIVED'']"
  let ?S = "\<lparr>incidents = [?A], isInitialized = True, disk = Absent, writable = True\<rparr>"
  let ?T = "\<lparr>incidents = [?B], isInitialized = True, disk = Absent, writable = True\<rparr>"
  have a: "findById ?S (JStr ''a'') = Some ?A"
    by (simp add: findById_def get_prop_def)
  have b: "findById ?T (JStr ''b'') = Some ?B"
    by (simp add: findById_def get_prop_def)
  have sa: "get_prop ?A ''status'' = JStr ''OPEN''" and sb: "get_prop ?B ''status'' = JStr ''ARCHIVED''"
    by (simp_all add: get_prop_def)
  show ?thesis
    using a b sa sb archive_reset_by_status [OF a] archive_reset_by_status [OF b]
    by simp
qed

section \<open>Status changes through the request handlers\<close>

lemma follows_workflow_refl: "follows_workflow st st"
  by (simp add: follows_workflow_def status_step_def list_all2_same)

lemma follows_workflow_append:
  "incidents st' = incidents st @ new \<Longrightarrow> follows_workflow st st'"
  by (simp add: follows_workflow_def status_step_def list_all2_same)

lemma assign_found_status_step:
  "find (\<lambda>x. get_prop x ''id'' = i) xs = Some incident \<Longrightarrow>
   workflow_edge (get_prop incident ''status'') v \<Longrightarrow>
   list_all2 status_step xs (assign_found i ''status'' v xs)"
proof (induction xs)
  case Nil
  then show ?case by simp
next
  case (Cons x xs)
  have same: "list_all2 status_step xs xs"
    by (simp add: list_all2_same status_step_def)
  show ?case
  proof (cases "get_prop x ''id'' = i")
    case True
    with Cons.prems have "x = incident" by simp
    with Cons.prems(2) have "status_step x (x(''status'' \<mapsto> v))"
      by (simp add: status_step_def get_prop_upd)
    with True same show ?thesis by simp
  next
    case False
    have "status_step x x" by (simp add: status_step_def)
    with False Cons show ?thesis by simp
  qed
qed

lemma follows_workflow_assign:
  "findById st i = Some incident \<Longrightarrow>
   workflow_edge (get_prop incident ''status'') v \<Longrightarrow>
   incidents st' = assign_found i ''status'' v (incidents st) \<Longrightarrow>
   follows_workflow st st'"
  using assign_found_status_step [of i "incidents st" incident v]
  by (simp add: follows_workflow_def findById_def length_assign_found)

lemma createIncident_incidents:
  "createIncident st uuid now data = (r, st') \<Longrightarrow>
   incidents st' = incidents st @ [new_incident uuid now data]"
  by (auto simp: createIncident_def saveToFile_def autoSave_def Let_def split: if_splits)

lemma bulk_rows_appends:
  "bulk_rows gen records c s st = (r, st') \<Longrightarrow> \<exists>new. incidents st' = incidents st @ new"
proof (induction records arbitrary: gen c s st)
  case Nil
  then show ?case by simp
next
  case (Cons row records)
  show ?case
  proof (cases "is_ok (validateCreateIncident row)")
    case False
    with Cons show ?thesis by simp
  next
    case True
    obtain r1 st1 where c1:
      "createIncident st (fst (gen 0)) (snd (gen 0)) (sanitized (validateCreateIncident row)) = (r1, st1)"
      by fastforce
    from createIncident_incidents [OF c1] obtain x where x: "incidents st1 = incidents st @ [x]"
      by blast
    show ?thesis
    proof (cases r1)
      case (Inl e)
      with Cons.prems True c1 x show ?thesis by auto
    next
      case (Inr inc)
      with Cons.prems True c1
      have "bulk_rows (\<lambda>n. gen (Suc n)) records (c + 1) s st1 = (r, st')" by simp
      from Cons.IH [OF this] x show ?thesis by auto
    qed
  qed
qed

lemma get_incidents_follows: "get_incidents st q = (resp, st') \<Longrightarrow> follows_workflow st st'"
  by (auto simp: get_incidents_def follows_workflow_refl)

lemma get_incident_follows: "get_incident st i = (resp, st') \<Longrightarrow> follows_workflow st st'"
  by (auto simp: get_incident_def follows_workflow_refl split: option.splits)

lemma post_incident_follows:
  "post_incident st uuid now reqbody = (resp, st') \<Longrightarrow> follows_workflow st st'"
  by (auto simp: post_incident_def Let_def follows_workflow_refl
      split: if_splits prod.splits sum.splits
      dest!: createIncident_incidents intro: follows_workflow_append)

lemma bulk_upload_follows:
  "bulk_upload st gen file = (resp, st') \<Longrightarrow> follows_workflow st st'"
  by (auto simp: bulk_upload_def follows_workflow_refl
      split: upload.splits prod.splits sum.splits
      dest!: bulk_rows_appends intro: follows_workflow_append)

lemma patch_status_follows:
  assumes "patch_status st i reqbody = (resp, st')"
  shows "follows_workflow st st'"
proof (cases "findById st (JStr i)")
  case None
  with assms show ?thesis by (auto simp: patch_status_def follows_workflow_refl)
next
  case (Some incident)
  note found = Some
  have idv: "get_prop incident ''id'' = JStr i"
    using findById_id [OF found] .
  show ?thesis
  proof (cases "validateStatusChange (get_prop incident ''status'') (get_prop reqbody ''status'')")
    case (Inl e)
    with assms found show ?thesis by (auto simp: patch_status_def follows_workflow_refl)
  next
    case (Inr c)
    show ?thesis
    proof (cases "ok c")
      case False
      with assms found Inr show ?thesis by (auto simp: patch_status_def follows_workflow_refl)
    next
      case True
      from validateStatusChange_ok_edge [OF Inr True]
      have edge: "workflow_edge (get_prop incident ''status'') (nxt c)" by simp
      have "incidents st' = assign_found (JStr i) ''status'' (nxt c) (incidents st)"
        using assms found Inr True idv updateStatus_found [OF found, of "nxt c"]
        by (auto simp: patch_status_def split: if_splits)
      from follows_workflow_assign [OF found edge this] show ?thesis .
    qed
  qed
qed

lemma post_archive_follows:
  assumes "post_archive st i = (resp, st')"
  shows "follows_workflow st st'"
proof (cases "findById st (JStr i)")
  case None
  with assms show ?thesis by (auto simp: post_archive_def follows_workflow_refl)
next
  case (Some incident)
  note found = Some
  have idv: "get_prop incident ''id'' = JStr i"
    using findById_id [OF found] .
  show ?thesis
  proof (cases "get_prop incident ''status'' = JStr ''OPEN'' \<or> get_prop incident ''status'' = JStr ''RESOLVED''")
    case False
    with assms found show ?thesis
      by (auto simp: post_archive_def validateArchive_def follows_workflow_refl)
  next
    case True
    then have edge: "workflow_edge (get_prop incident ''status'') (JStr ''ARCHIVED'')"
      by (auto simp: workflow_edge_def)
    have "incidents st' = assign_found (JStr i) ''status'' (JStr ''ARCHIVED'') (incidents st)"
      using assms found True idv archiveIncident_accept [OF found True]
      by (auto simp: post_archive_def validateArchive_def split: if_splits)
    from follows_workflow_assign [OF found edge this] show ?thesis .
  qed
qed

lemma post_reset_follows:
  assumes "post_reset st i = (resp, st')"
  shows "follows_workflow st st'"
proof (cases "findById st (JStr i)")
  case None
  with assms show ?thesis by (auto simp: post_reset_def follows_workflow_refl)
next
  case (Some incident)
  note found = Some
  have idv: "get_prop incident ''id'' = JStr i"
    using findById_id [OF found] .
  show ?thesis
  proof (cases "get_prop incident ''status'' = JStr ''ARCHIVED''")
    case False
    with assms found show ?thesis
      by (auto simp: post_reset_def validateReset_def follows_workflow_refl)
  next
    case True
    then have edge: "workflow_edge (get_prop incident ''status'') (JStr ''OPEN'')"
      by (auto simp: workflow_edge_def)
    have "incidents st' = assign_found (JStr i) ''status'' (JStr ''OPEN'') (incidents st)"
      using assms found True idv resetArchivedIncident_accept [OF found True]
      by (auto simp: post_reset_def validateReset_def split: if_splits)
    from follows_workflow_assign [OF found edge this] show ?thesis .
  qed
qed

lemma patch_status_rejects:
  assumes "patch_status st i reqbody = (resp, st')"
    and found: "findById st (JStr i) = Some incident"
    and nonedge: "\<not> workflow_edge (get_prop incident ''status'') (get_prop reqbody ''status'')"
  shows "code resp \<in> {400, 500} \<and> st' = st"
proof (cases "validateStatusChange (get_prop incident ''status'') (get_prop reqbody ''status'')")
  case (Inl e)
  with assms show ?thesis by (auto simp: patch_status_def)
next
  case (Inr c)
  with validateStatusChange_ok_edge [OF Inr] nonedge have "\<not> ok c" by blast
  with assms Inr show ?thesis by (auto simp: patch_status_def)
qed

section \<open>Where the workflow graph is enforced\<close>

text \<open>
  Claim C1, as stated, fails on the store: \<^verbatim>\<open>updateStatus\<close> makes no transition
  check. On a stored incident whose status is INVESTIGATING it sets the status ARCHIVED,
  which is no edge of the workflow graph, and returns the changed record.
\<close>

theorem updateStatus_unchecked_counterexample:
  "\<not> workflow_edge (JStr ''INVESTIGATING'') (JStr ''ARCHIVED'')
   \<and> findById \<lparr>incidents = [[''id'' \<mapsto> JStr ''a'', ''status'' \<mapsto> JStr ''INVESTIGATING'']],
               isInitialized = True, disk = Absent, writable = True\<rparr> (JStr ''a'')
       = Some [''id'' \<mapsto> JStr ''a'', ''status'' \<mapsto> JStr ''INVESTIGATING'']
   \<and> updateStatus \<lparr>incidents = [[''id'' \<mapsto> JStr ''a'', ''status'' \<mapsto> JStr ''INVESTIGATING'']],
                   isInitialized = True, disk = Absent, writable = True\<rparr>
         (JStr ''a'') (JStr ''ARCHIVED'')
       = (Inr (Some [''id'' \<mapsto> JStr ''a'', ''status'' \<mapsto> JStr ''ARCHIVED'']),
          \<lparr>incidents = [[''id'' \<mapsto> JStr ''a'', ''status'' \<mapsto> JStr ''ARCHIVED'']],
           isInitialized = True,
           disk = Json [json_object [''id'' \<mapsto> JStr ''a'', ''status'' \<mapsto> JStr ''ARCHIVED'']],
           writable = True\<rparr>)"
  by (simp add: workflow_edge_def findById_def get_prop_def updateStatus_def saveToFile_def
      autoSave_def)

text \<open>
  Claim C1, amended. The transition check is made by the handler of
  \<^verbatim>\<open>PATCH /:id/status\<close> before it calls \<^verbatim>\<open>updateStatus\<close>: for a stored incident
  and a requested status that is no edge from its current status, the request is
  answered with 400 or 500 and the store is left as it was. Through the request
  handlers (list, get, create, status change, archive, reset, bulk upload) every stored
  incident keeps its status or moves along one edge of the workflow graph.
\<close>

theorem router_follows_workflow:
  assumes "router st gen req = (resp, st')"
  shows "follows_workflow st st'
    \<and> (\<forall>i reqbody incident.
          req = PatchStatus i reqbody \<and> findById st (JStr i) = Some incident
          \<and> \<not> workflow_edge (get_prop incident ''status'') (get_prop reqbody ''status'')
          \<longrightarrow> code resp \<in> {400, 500} \<and> st' = st)"
proof -
  have "follows_workflow st st'"
    using assms
    by (cases req)
      (auto dest: get_incidents_follows get_incident_follows post_incident_follows
        patch_status_follows post_archive_follows post_reset_follows bulk_upload_follows)
  moreover have "code resp \<in> {400, 500} \<and> st' = st"
    if "req = PatchStatus i reqbody" "findById st (JStr i) = Some incident"
      "\<not> workflow_edge (get_prop incident ''status'') (get_prop reqbody ''status'')"
    for i reqbody incident
    using assms that patch_status_rejects [of st i reqbody resp st' incident] by simp
  ultimately show ?thesis by blast
qed

theorem router_follows_workflow_witness:
  "router \<lparr>incidents = [[''id'' \<mapsto> JStr ''a'', ''status'' \<mapsto> JStr ''INVESTIGATING'']],
            isInitialized = True, disk = Absent, writable = True\<rparr>
      (\<lambda>n. (''u'', ''t'')) (PatchStatus ''a'' [''status'' \<mapsto> JStr ''ARCHIVED''])
     = (\<lparr>code = 400,
         body = ErrorBody (JStr
           ''Invalid status transition from INVESTIGATING to ARCHIVED. Allowed: RESOLVED'')\<rparr>,
        \<lparr>incidents = [[''id'' \<mapsto> JStr ''a'', ''status'' \<mapsto> JStr ''INVESTIGATING'']],
            isInitialized = True, disk = Absent, writable = True\<rparr>)
   \<and> follows_workflow
        \<lparr>incidents = [[''id'' \<mapsto> JStr ''a'', ''status'' \<mapsto> JStr ''INVESTIGATING'']],
            isInitialized = True, disk = Absent, writable = True\<rparr>
        \<lparr>incidents = [[''id'' \<mapsto> JStr ''a'', ''status'' \<mapsto> JStr ''INVESTIGATING'']],
            isInitialized = True, disk = Absent, writable = True\<rparr>
   \<and> findById \<lparr>incidents = [[''id'' \<mapsto> JStr ''a'', ''status'' \<mapsto> JStr ''INVESTIGATING'']],
               isInitialized = True, disk = Absent, writable = True\<rparr> (JStr ''a'')
       = Some [''id'' \<mapsto> JStr ''a'', ''status'' \<mapsto> JStr ''INVESTIGATING'']
   \<and> \<not> workflow_edge (get_prop [''id'' \<mapsto> JStr ''a'', ''status'' \<mapsto> JStr ''INVESTIGATING''] ''status'')
         (get_prop [''status'' \<mapsto> JStr ''ARCHIVED''] ''status'')
   \<and> code \<lparr>code = 400,
         body = ErrorBody (JStr
           ''Invalid status transition from INVESTIGATING to ARCHIVED. Allowed: RESOLVED'')\<rparr>
       \<in> {400, 500}"
proof -
  let ?A = "[''id'' \<mapsto> JStr ''a'', ''status'' \<mapsto> JStr ''INVESTIGATING'']"
  let ?S = "\<lparr>incidents = [?A], isInitialized = True, disk = Absent, writable = True\<rparr>"
  let ?R = "\<lparr>code = 400,
         body = ErrorBody (JStr
           ''Invalid status transition from INVESTIGATING to ARCHIVED. Allowed: RESOLVED'')\<rparr>"
  have found: "findById ?S (JStr ''a'') = Some ?A"
    by (simp add: findById_def get_prop_def)
  have nonedge: "\<not> workflow_edge (get_prop ?A ''status'') (get_prop [''status'' \<mapsto> JStr ''ARCHIVED''] ''status'')"
    by (simp add: workflow_edge_def get_prop_def)
  have run: "router ?S (\<lambda>n. (''u'', ''t'')) (PatchStatus ''a'' [''status'' \<mapsto> JStr ''ARCHIVED'']) = (?R, ?S)"
    by (simp add: patch_status_def findById_def get_prop_def validateStatusChange_def
        lookup_member_def statusTransitions_def)
  from router_follows_workflow [OF run] found nonedge
  have "follows_workflow ?S ?S \<and> code ?R \<in> {400, 500}" by blast
  with run found nonedge show ?thesis by blast
qed

section \<open>Not found and invalid state\<close>

text \<open>
  Claim C5, as stated, fails on the store: for an id that matches no incident and for an
  incident whose status disallows the operation, \<^verbatim>\<open>archiveIncident\<close> and
  \<^verbatim>\<open>resetArchivedIncident\<close> return the same value \<^verbatim>\<open>null\<close>.
\<close>

theorem archive_reset_null_counterexample:
  "findById \<lparr>incidents = [[''id'' \<mapsto> JStr ''a'', ''status'' \<mapsto> JStr ''INVESTIGATING'']],
             isInitialized = True, disk = Absent, writable = True\<rparr> (JStr ''a'')
     = Some [''id'' \<mapsto> JStr ''a'', ''status'' \<mapsto> JStr ''INVESTIGATING'']
   \<and> findById \<lparr>incidents = [[''id'' \<mapsto> JStr ''a'', ''status'' \<mapsto> JStr ''INVESTIGATING'']],
             isInitialized = True, disk = Absent, writable = True\<rparr> (JStr ''zz'') = None
   \<and> fst (archiveIncident \<lparr>incidents = [[''id'' \<mapsto> JStr ''a'', ''status'' \<mapsto> JStr ''INVESTIGATING'']],
             isInitialized = True, disk = Absent, writable = True\<rparr> (JStr ''a'')) = Inr None
   \<and> fst (archiveIncident \<lparr>incidents = [[''id'' \<mapsto> JStr ''a'', ''status'' \<mapsto> JStr ''INVESTIGATING'']],
             isInitialized = True, disk = Absent, writable = True\<rparr> (JStr ''zz'')) = Inr None
   \<and> fst (resetArchivedIncident \<lparr>incidents = [[''id'' \<mapsto> JStr ''a'', ''status'' \<mapsto> JStr ''INVESTIGATING'']],
             isInitialized = True, disk = Absent, writable = True\<rparr> (JStr ''a'')) = Inr None
   \<and> fst (resetArchivedIncident \<lparr>incidents = [[''id'' \<mapsto> JStr ''a'', ''status'' \<mapsto> JStr ''INVESTIGATING'']],
             isInitialized = True, disk = Absent, writable = True\<rparr> (JStr ''zz'')) = Inr None"
  by (simp add: findById_def get_prop_def archiveIncident_def resetArchivedIncident_def)

text \<open>
  Claim C5, amended. The two rejections are told apart by the handlers of
  \<^verbatim>\<open>POST /:id/archive\<close> and \<^verbatim>\<open>POST /:id/reset\<close>, which look the incident up and
  consult \<^verbatim>\<open>validateArchive\<close> and \<^verbatim>\<open>validateReset\<close> before they call the store: an
  id that matches no incident is answered with 404 and \<^verbatim>\<open>Incident not found\<close>, a
  status that disallows the operation with 400 and the message of the validator. In both
  cases the store is unchanged, and the store function itself returns \<^verbatim>\<open>null\<close>.
\<close>

theorem archive_reset_rejections:
  "(findById st (JStr i) = None \<longrightarrow>
      post_archive st i = (\<lparr>code = 404, body = ErrorBody (JStr ''Incident not found'')\<rparr>, st)
    \<and> post_reset st i = (\<lparr>code = 404, body = ErrorBody (JStr ''Incident not found'')\<rparr>, st)
    \<and> archiveIncident st (JStr i) = (Inr None, st)
    \<and> resetArchivedIncident st (JStr i) = (Inr None, st))
   \<and> (\<forall>incident. findById st (JStr i) = Some incident \<longrightarrow>
        (get_prop incident ''status'' \<noteq> JStr ''OPEN'' \<and> get_prop incident ''status'' \<noteq> JStr ''RESOLVED''
           \<longrightarrow> post_archive st i =
                 (\<lparr>code = 400,
                   body = ErrorBody
                     (JStr ''Only incidents in OPEN or RESOLVED status can be archived'')\<rparr>, st)
               \<and> archiveIncident st (JStr i) = (Inr None, st))
      \<and> (get_prop incident ''status'' \<noteq> JStr ''ARCHIVED''
           \<longrightarrow> post_reset st i =
                 (\<lparr>code = 400,
                   body = ErrorBody
                     (JStr ''Only archived incidents can be reset to OPEN status'')\<rparr>, st)
               \<and> resetArchivedIncident st (JStr i) = (Inr None, st)))"
  by (auto simp: post_archive_def post_reset_def validateArchive_def validateReset_def
      archiveIncident_def resetArchivedIncident_def)

theorem archive_reset_rejections_witness:
  "findById \<lparr>incidents = [[''id'' \<mapsto> JStr ''a'', ''status'' \<mapsto> JStr ''INVESTIGATING'']],
             isInitialized = True, disk = Absent, writable = True\<rparr> (JStr ''zz'') = None
   \<and> post_archive \<lparr>incidents = [[''id'' \<mapsto> JStr ''a'', ''status'' \<mapsto> JStr ''INVESTIGATING'']],
             isInitialized = True, disk = Absent, writable = True\<rparr> ''zz''
      = (\<lparr>code = 404, body = ErrorBody (JStr ''Incident not found'')\<rparr>,
         \<lparr>incidents = [[''id'' \<mapsto> JStr ''a'', ''status'' \<mapsto> JStr ''INVESTIGATING'']],
             isInitialized = True, disk = Absent, writable = True\<rparr>)
   \<and> findById \<lparr>incidents = [[''id'' \<mapsto> JStr ''a'', ''status'' \<mapsto> JStr ''INVESTIGATING'']],
             isInitialized = True, disk = Absent, writable = True\<rparr> (JStr ''a'')
      = Some [''id'' \<mapsto> JStr ''a'', ''status'' \<mapsto> JStr ''INVESTIGATING'']
   \<and> post_archive \<lparr>incidents = [[''id'' \<mapsto> JStr ''a'', ''status'' \<mapsto> JStr ''INVESTIGATING'']],
             isInitialized = True, disk = Absent, writable = True\<rparr> ''a''
      = (\<lparr>code = 400,
          body = ErrorBody (JStr ''Only incidents in OPEN or RESOLVED status can be archived'')\<rparr>,
         \<lparr>incidents = [[''id'' \<mapsto> JStr ''a'', ''status'' \<mapsto> JStr ''INVESTIGATING'']],
             isInitialized = True, disk = Absent, writable = True\<rparr>)
   \<and> post_reset \<lparr>incidents = [[''id'' \<mapsto> JStr ''a'', ''status'' \<mapsto> JStr ''INVESTIGATING'']],
             isInitialized = True, disk = Absent, writable = True\<rparr> ''a''
      = (\<lparr>code = 400,
          body = ErrorBody (JStr ''Only archived incidents can be reset to OPEN status'')\<rparr>,
         \<lparr>incidents = [[''id'' \<mapsto> JStr ''a'', ''status'' \<mapsto> JStr ''INVESTIGATING'']],
             isInitialized = True, disk = Absent, writable = True\<rparr>)"
proof -
  let ?A = "[''id'' \<mapsto> JStr ''a'', ''status'' \<mapsto> JStr ''INVESTIGATING'']"
  let ?S = "\<lparr>incidents = [?A], isInitialized = True, disk = Absent, writable = True\<rparr>"
  have absent: "findById ?S (JStr ''zz'') = None"
    by (simp add: findById_def get_prop_def)
  have found: "findById ?S (JStr ''a'') = Some ?A"
    by (simp add: findById_def get_prop_def)
  have status: "get_prop ?A ''status'' \<noteq> JStr ''OPEN''" "get_prop ?A ''status'' \<noteq> JStr ''RESOLVED''"
    "get_prop ?A ''status'' \<noteq> JStr ''ARCHIVED''"
    by (simp_all add: get_prop_def)
  show ?thesis
    using absent found status
      archive_reset_rejections [of ?S "''zz''"] archive_reset_rejections [of ?S "''a''"]
    by blast
qed

section \<open>Creation\<close>

lemma createIncident_writable:
  "writable st \<Longrightarrow>
   createIncident st uuid now data =
     (Inr (new_incident uuid now data),
      st\<lparr>incidents := incidents st @ [new_incident uuid now data],
         disk := Json (map json_object (incidents st @ [new_incident uuid now data]))\<rparr>)"
  by (simp add: createIncident_def saveToFile_def autoSave_def Let_def)

lemma createIncident_result:
  "createIncident st uuid now data = (r, st') \<Longrightarrow>
     r = Inr (new_incident uuid now data) \<or> r = Inl (Error ''Failed to save incidents data'')"
  by (auto simp: createIncident_def saveToFile_def autoSave_def Let_def split: if_splits)

lemma new_incident_status: "get_prop (new_incident uuid now data) ''status'' = JStr ''OPEN''"
  by (simp add: new_incident_def get_prop_def)

lemma new_incident_reportedAt: "get_prop (new_incident uuid now data) ''reportedAt'' = JStr now"
  by (simp add: new_incident_def get_prop_def)

lemma new_incident_id:
  "get_prop (new_incident uuid now data) ''id''
     = (case data ''id'' of None \<Rightarrow> JStr uuid | Some v \<Rightarrow> v)"
  by (simp add: new_incident_def get_prop_def map_add_def split: option.splits)

lemma new_incident_field:
  "k \<noteq> ''id'' \<Longrightarrow> k \<noteq> ''status'' \<Longrightarrow> k \<noteq> ''reportedAt'' \<Longrightarrow>
     get_prop (new_incident uuid now data) k = get_prop data k"
  by (simp add: new_incident_def get_prop_def map_add_def split: option.splits)

lemma post_incident_created:
  assumes p: "post_incident st uuid now reqbody = (\<lparr>code = 201, body = IncidentBody incident\<rparr>, st')"
  shows "incident = new_incident uuid now (sanitized (validateCreateIncident reqbody))"
proof -
  obtain r st1 where c: "createIncident st uuid now (sanitized (validateCreateIncident reqbody)) = (r, st1)"
    by fastforce
  from createIncident_result [OF c] p c show ?thesis
    by (auto simp: post_incident_def Let_def split: if_splits)
qed

lemma sanitized_no_id: "sanitized (validateCreateIncident reqbody) ''id'' = None"
  by (simp add: validateCreateIncident_def Let_def)

lemma dom_sanitized:
  "dom (sanitized (validateCreateIncident reqbody))
     = {''title'', ''description'', ''category'', ''severity''}"
  by (auto simp: validateCreateIncident_def Let_def)

lemma find_append_fresh:
  "find P xs = None \<Longrightarrow> P x \<Longrightarrow> find P (xs @ [x]) = Some x"
  by (induction xs) (auto split: if_splits)

text \<open>
  Claim C6. For data without an \<^verbatim>\<open>id\<close> key (as the four validated fields are), a
  generated id that no stored incident has, and a data file that can be written,
  \<^verbatim>\<open>createIncident\<close> returns a record, and \<^verbatim>\<open>findById\<close> of the returned id gives
  that record: its id is the generated one, its status is OPEN, its \<^verbatim>\<open>reportedAt\<close> is
  the time of creation, and its title, description, category and severity are the
  submitted ones.
\<close>

theorem create_then_findById:
  assumes "writable st"
    and "findById st (JStr uuid) = None"
    and "''id'' \<notin> dom data"
  shows "\<exists>incident st'.
      createIncident st uuid now data = (Inr incident, st')
      \<and> findById st' (get_prop incident ''id'') = Some incident
      \<and> get_prop incident ''id'' = JStr uuid
      \<and> get_prop incident ''status'' = JStr ''OPEN''
      \<and> get_prop incident ''reportedAt'' = JStr now
      \<and> get_prop incident ''title'' = get_prop data ''title''
      \<and> get_prop incident ''description'' = get_prop data ''description''
      \<and> get_prop incident ''category'' = get_prop data ''category''
      \<and> get_prop incident ''severity'' = get_prop data ''severity''"
proof -
  let ?inc = "new_incident uuid now data"
  from assms(3) have noid: "data ''id'' = None" by auto
  have idv: "get_prop ?inc ''id'' = JStr uuid"
    using noid by (simp add: new_incident_id)
  have "find (\<lambda>i. get_prop i ''id'' = JStr uuid) (incidents st @ [?inc]) = Some ?inc"
    using assms(2) idv by (intro find_append_fresh) (simp_all add: findById_def)
  then have "findById (snd (createIncident st uuid now data)) (get_prop ?inc ''id'') = Some ?inc"
    using assms(1) idv by (simp add: createIncident_writable findById_def)
  then show ?thesis
    using assms(1) idv
    by (simp add: createIncident_writable new_incident_status new_incident_reportedAt
        new_incident_field)
qed

theorem create_then_findById_witness:
  "writable \<lparr>incidents = [[''id'' \<mapsto> JStr ''a'', ''status'' \<mapsto> JStr ''OPEN'']],
              isInitialized = True, disk = Absent, writable = True\<rparr>
   \<and> findById \<lparr>incidents = [[''id'' \<mapsto> JStr ''a'', ''status'' \<mapsto> JStr ''OPEN'']],
              isInitialized = True, disk = Absent, writable = True\<rparr> (JStr ''b'') = None
   \<and> ''id'' \<notin> dom [''title'' \<mapsto> JStr ''Printer jam'', ''description'' \<mapsto> JStr ''Paper stuck in tray'',
                      ''category'' \<mapsto> JStr ''IT'', ''severity'' \<mapsto> JStr ''HIGH'']
   \<and> (\<exists>incident st'.
        createIncident \<lparr>incidents = [[''id'' \<mapsto> JStr ''a'', ''status'' \<mapsto> JStr ''OPEN'']],
              isInitialized = True, disk = Absent, writable = True\<rparr> ''b'' ''2024-01-01T00:00:00.000Z''
          [''title'' \<mapsto> JStr ''Printer jam'', ''description'' \<mapsto> JStr ''Paper stuck in tray'',
           ''category'' \<mapsto> JStr ''IT'', ''severity'' \<mapsto> JStr ''HIGH''] = (Inr incident, st')
        \<and> findById st' (get_prop incident ''id'') = Some incident
        \<and> get_prop incident ''id'' = JStr ''b''
        \<and> get_prop incident ''status'' = JStr ''OPEN''
        \<and> get_prop incident ''reportedAt'' = JStr ''2024-01-01T00:00:00.000Z''
        \<and> get_prop incident ''title'' = JStr ''Printer jam''
        \<and> get_prop incident ''description'' = JStr ''Paper stuck in tray''
        \<and> get_prop incident ''category'' = JStr ''IT''
        \<and> get_prop incident ''severity'' = JStr ''HIGH'')"
proof -
  let ?S = "\<lparr>incidents = [[''id'' \<mapsto> JStr ''a'', ''status'' \<mapsto> JStr ''OPEN'']],
              isInitialized = True, disk = Absent, writable = True\<rparr>"
  let ?D = "[''title'' \<mapsto> JStr ''Printer jam'', ''description'' \<mapsto> JStr ''Paper stuck in tray'',
             ''category'' \<mapsto> JStr ''IT'', ''severity'' \<mapsto> JStr ''HIGH'']"
  have w: "writable ?S" by simp
  have f: "findById ?S (JStr ''b'') = None" by (simp add: findById_def get_prop_def)
  have d: "''id'' \<notin> dom ?D" by simp
  have g: "get_prop ?D ''title'' = JStr ''Printer jam''"
    "get_prop ?D ''description'' = JStr ''Paper stuck in tray''"
    "get_prop ?D ''category'' = JStr ''IT''" "get_prop ?D ''severity'' = JStr ''HIGH''"
    by (simp_all add: get_prop_def)
  from create_then_findById [OF w f d, of "''2024-01-01T00:00:00.000Z''"] w f d
  show ?thesis unfolding g by blast
qed

section \<open>The order of the object literal in creation\<close>

text \<open>
  Claim C10. The record that \<^verbatim>\<open>createIncident\<close> appends has status OPEN and the
  creation time as \<^verbatim>\<open>reportedAt\<close> whatever keys \<^verbatim>\<open>data\<close> has, since both are
  assigned after the spread. Its id is assigned before the spread: if \<^verbatim>\<open>data\<close> has an
  \<^verbatim>\<open>id\<close> key, the stored id is the one of \<^verbatim>\<open>data\<close> and the generated one is lost;
  otherwise it is the generated one. The value that \<^verbatim>\<open>validateCreateIncident\<close> hands
  on has exactly the keys title, description, category and severity, so the record
  created by \<^verbatim>\<open>POST /\<close> has the generated id.
\<close>

theorem createIncident_literal_order:
  "(\<exists>incident.
      incidents (snd (createIncident st uuid now data)) = incidents st @ [incident]
      \<and> (writable st \<longrightarrow> fst (createIncident st uuid now data) = Inr incident)
      \<and> get_prop incident ''status'' = JStr ''OPEN''
      \<and> get_prop incident ''reportedAt'' = JStr now
      \<and> (\<forall>v. data ''id'' = Some v \<longrightarrow> get_prop incident ''id'' = v)
      \<and> (data ''id'' = None \<longrightarrow> get_prop incident ''id'' = JStr uuid))
   \<and> dom (sanitized (validateCreateIncident reqbody))
        = {''title'', ''description'', ''category'', ''severity''}
   \<and> (\<forall>incident st'. post_incident st uuid now reqbody = (\<lparr>code = 201, body = IncidentBody incident\<rparr>, st')
        \<longrightarrow> get_prop incident ''id'' = JStr uuid)"
proof -
  let ?inc = "new_incident uuid now data"
  let ?v = "sanitized (validateCreateIncident reqbody)"
  obtain r st1 where c: "createIncident st uuid now data = (r, st1)" by fastforce
  have 1: "incidents (snd (createIncident st uuid now data)) = incidents st @ [?inc]"
    using createIncident_incidents [OF c] c by simp
  have 2: "writable st \<longrightarrow> fst (createIncident st uuid now data) = Inr ?inc"
    by (simp add: createIncident_writable)
  have 3: "(\<forall>v. data ''id'' = Some v \<longrightarrow> get_prop ?inc ''id'' = v)
      \<and> (data ''id'' = None \<longrightarrow> get_prop ?inc ''id'' = JStr uuid)"
    by (simp add: new_incident_id)
  have first: "\<exists>incident.
      incidents (snd (createIncident st uuid now data)) = incidents st @ [incident]
      \<and> (writable st \<longrightarrow> fst (createIncident st uuid now data) = Inr incident)
      \<and> get_prop incident ''status'' = JStr ''OPEN''
      \<and> get_prop incident ''reportedAt'' = JStr now
      \<and> (\<forall>v. data ''id'' = Some v \<longrightarrow> get_prop incident ''id'' = v)
      \<and> (data ''id'' = None \<longrightarrow> get_prop incident ''id'' = JStr uuid)"
    apply (rule exI [of _ ?inc])
    apply (intro conjI)
         apply (rule 1)
        apply (rule 2)
       apply (rule new_incident_status)
      apply (rule new_incident_reportedAt)
    using 3 apply blast
    using 3 apply blast
    done
  have noid: "?v ''id'' = None"
    by (rule sanitized_no_id)
  have idv: "get_prop (new_incident uuid now ?v) ''id'' = JStr uuid"
    using noid by (simp add: new_incident_id)
  have third: "\<forall>incident st'.
      post_incident st uuid now reqbody = (\<lparr>code = 201, body = IncidentBody incident\<rparr>, st')
        \<longrightarrow> get_prop incident ''id'' = JStr uuid"
  proof (intro allI impI)
    fix incident st'
    assume "post_incident st uuid now reqbody = (\<lparr>code = 201, body = IncidentBody incident\<rparr>, st')"
    from post_incident_created [OF this] idv
    show "get_prop incident ''id'' = JStr uuid" by simp
  qed
  from first dom_sanitized [of reqbody] third show ?thesis
    by (intro conjI)
qed

lemma validateCreateIncident_example:
  "is_ok (validateCreateIncident
     [''title'' \<mapsto> JStr ''Printer jam'', ''description'' \<mapsto> JStr ''Paper stuck in tray'',
      ''category'' \<mapsto> JStr ''IT'', ''severity'' \<mapsto> JStr ''HIGH''])"
  by (simp add: validateCreateIncident_def title_errors_def description_errors_def
      category_errors_def severity_errors_def get_prop_def categories_def severities_def
      title_minLength_def title_maxLength_def description_minLength_def
      description_maxLength_def)

theorem createIncident_literal_order_witness:
  "[''id'' \<mapsto> JStr ''mine'', ''status'' \<mapsto> JStr ''RESOLVED''] ''id'' = Some (JStr ''mine'')
   \<and> writable (module_start Absent True)
   \<and> (\<exists>incident.
        incidents (snd (createIncident (module_start Absent True) ''u'' ''t''
                          [''id'' \<mapsto> JStr ''mine'', ''status'' \<mapsto> JStr ''RESOLVED'']))
          = incidents (module_start Absent True) @ [incident]
        \<and> fst (createIncident (module_start Absent True) ''u'' ''t''
                  [''id'' \<mapsto> JStr ''mine'', ''status'' \<mapsto> JStr ''RESOLVED'']) = Inr incident
        \<and> get_prop incident ''status'' = JStr ''OPEN''
        \<and> get_prop incident ''reportedAt'' = JStr ''t''
        \<and> get_prop incident ''id'' = JStr ''mine'')
   \<and> (Map.empty :: jsobj) ''id'' = None
   \<and> (\<exists>incident.
        incidents (snd (createIncident (module_start Absent True) ''u'' ''t'' Map.empty))
          = incidents (module_start Absent True) @ [incident]
        \<and> get_prop incident ''id'' = JStr ''u'')
   \<and> (\<exists>incident st'.
        post_incident (module_start Absent True) ''u'' ''t''
          [''title'' \<mapsto> JStr ''Printer jam'', ''description'' \<mapsto> JStr ''Paper stuck in tray'',
           ''category'' \<mapsto> JStr ''IT'', ''severity'' \<mapsto> JStr ''HIGH'']
          = (\<lparr>code = 201, body = IncidentBody incident\<rparr>, st')
        \<and> get_prop incident ''id'' = JStr ''u'')"
proof -
  let ?S = "module_start Absent True"
  let ?D = "[''id'' \<mapsto> JStr ''mine'', ''status'' \<mapsto> JStr ''RESOLVED'']"
  let ?B = "[''title'' \<mapsto> JStr ''Printer jam'', ''description'' \<mapsto> JStr ''Paper stuck in tray'',
             ''category'' \<mapsto> JStr ''IT'', ''severity'' \<mapsto> JStr ''HIGH'']"
  have d: "?D ''id'' = Some (JStr ''mine'')" by simp
  have w: "writable ?S" by (simp add: module_start_def)
  have e: "(Map.empty :: jsobj) ''id'' = None" by simp
  have run: "post_incident ?S ''u'' ''t'' ?B
      = (\<lparr>code = 201,
          body = IncidentBody (new_incident ''u'' ''t'' (sanitized (validateCreateIncident ?B)))\<rparr>,
         snd (createIncident ?S ''u'' ''t'' (sanitized (validateCreateIncident ?B))))"
    using validateCreateIncident_example w
    by (simp add: post_incident_def Let_def createIncident_writable)
  have a: "\<exists>incident.
        incidents (snd (createIncident ?S ''u'' ''t'' ?D)) = incidents ?S @ [incident]
        \<and> fst (createIncident ?S ''u'' ''t'' ?D) = Inr incident
        \<and> get_prop incident ''status'' = JStr ''OPEN''
        \<and> get_prop incident ''reportedAt'' = JStr ''t''
        \<and> get_prop incident ''id'' = JStr ''mine''"
    using createIncident_literal_order [of ?S "''u''" "''t''" ?D Map.empty, THEN conjunct1] w
    by simp
  have b: "\<exists>incident.
        incidents (snd (createIncident ?S ''u'' ''t'' Map.empty)) = incidents ?S @ [incident]
        \<and> get_prop incident ''id'' = JStr ''u''"
    using createIncident_literal_order [of ?S "''u''" "''t''" Map.empty Map.empty, THEN conjunct1]
    by auto
  have c: "\<exists>incident st'.
        post_incident ?S ''u'' ''t'' ?B = (\<lparr>code = 201, body = IncidentBody incident\<rparr>, st')
        \<and> get_prop incident ''id'' = JStr ''u''"
    using createIncident_literal_order [of ?S "''u''" "''t''" Map.empty ?B, THEN conjunct2,
        THEN conjunct2] run
    by simp
  from d w a e b c show ?thesis by (intro conjI)
qed

section \<open>The initialisation flag\<close>

lemma findById_isInitialized: "findById (st\<lparr>isInitialized := b\<rparr>) i = findById st i"
  by (simp add: findById_def)

lemma saveToFile_isInitialized:
  "saveToFile (st\<lparr>isInitialized := b\<rparr>)
     = (fst (saveToFile st), (snd (saveToFile st))\<lparr>isInitialized := b\<rparr>)"
  by (simp add: saveToFile_def)

lemma createIncident_isInitialized:
  "createIncident (st\<lparr>isInitialized := b\<rparr>) uuid now data
       = (fst (createIncident st uuid now data),
          (snd (createIncident st uuid now data))\<lparr>isInitialized := b\<rparr>)"
  by (simp add: createIncident_def saveToFile_def autoSave_def Let_def)

lemma updateStatus_isInitialized:
  "updateStatus (st\<lparr>isInitialized := b\<rparr>) i v
       = (fst (updateStatus st i v), (snd (updateStatus st i v))\<lparr>isInitialized := b\<rparr>)"
  by (cases "findById st i")
    (simp_all add: updateStatus_def findById_isInitialized saveToFile_def autoSave_def Let_def)

lemma archiveIncident_isInitialized:
  "archiveIncident (st\<lparr>isInitialized := b\<rparr>) i
       = (fst (archiveIncident st i), (snd (archiveIncident st i))\<lparr>isInitialized := b\<rparr>)"
  by (cases "findById st i")
    (simp_all add: archiveIncident_def findById_isInitialized saveToFile_def autoSave_def Let_def)

lemma resetArchivedIncident_isInitialized:
  "resetArchivedIncident (st\<lparr>isInitialized := b\<rparr>) i
       = (fst (resetArchivedIncident st i), (snd (resetArchivedIncident st i))\<lparr>isInitialized := b\<rparr>)"
  by (cases "findById st i")
    (simp_all add: resetArchivedIncident_def findById_isInitialized saveToFile_def autoSave_def
      Let_def)

section \<open>Operations before initialisation\<close>

text \<open>
  Claim C4, as stated, fails: no store operation tests \<^verbatim>\<open>isInitialized\<close>. In the state
  of the module at the start of the process, before \<^verbatim>\<open>initializeStore\<close> has been
  called, \<^verbatim>\<open>listAll\<close> and \<^verbatim>\<open>findById\<close> answer from the empty collection,
  \<^verbatim>\<open>updateStatus\<close>, \<^verbatim>\<open>archiveIncident\<close> and \<^verbatim>\<open>resetArchivedIncident\<close>
  return \<^verbatim>\<open>null\<close>, and \<^verbatim>\<open>createIncident\<close> and \<^verbatim>\<open>save\<close> complete normally and
  write the data file.
\<close>

theorem uninitialized_operations_counterexample:
  "isInitialized (module_start Absent True) = False
   \<and> listAll (module_start Absent True) False = []
   \<and> listAll (module_start Absent True) True = []
   \<and> findById (module_start Absent True) (JStr ''a'') = None
   \<and> fst (updateStatus (module_start Absent True) (JStr ''a'') (JStr ''RESOLVED'')) = Inr None
   \<and> fst (archiveIncident (module_start Absent True) (JStr ''a'')) = Inr None
   \<and> fst (resetArchivedIncident (module_start Absent True) (JStr ''a'')) = Inr None
   \<and> createIncident (module_start Absent True) ''u'' ''t'' Map.empty
       = (Inr (new_incident ''u'' ''t'' Map.empty),
          \<lparr>incidents = [new_incident ''u'' ''t'' Map.empty], isInitialized = False,
           disk = Json [json_object (new_incident ''u'' ''t'' Map.empty)], writable = True\<rparr>)
   \<and> save (module_start Absent True)
       = (Inr (), \<lparr>incidents = [], isInitialized = False, disk = Json [], writable = True\<rparr>)"
  by (simp add: module_start_def listAll_def findById_def updateStatus_def archiveIncident_def
      resetArchivedIncident_def createIncident_def save_def saveToFile_def autoSave_def Let_def)

text \<open>
  Claim C4, amended. The store has no NotInitialized error: \<^verbatim>\<open>isInitialized\<close> is read
  and written by \<^verbatim>\<open>initializeStore\<close> only (a second call returns at once). Every other
  operation gives the same result and the same change of the store whatever the value of
  the flag, and leaves the flag as it is; before initialisation it works on the empty
  collection of the module.
\<close>

theorem operations_ignore_isInitialized:
  "listAll (st\<lparr>isInitialized := b\<rparr>) a = listAll st a
   \<and> findById (st\<lparr>isInitialized := b\<rparr>) i = findById st i
   \<and> createIncident (st\<lparr>isInitialized := b\<rparr>) uuid now data
       = (fst (createIncident st uuid now data),
          (snd (createIncident st uuid now data))\<lparr>isInitialized := b\<rparr>)
   \<and> updateStatus (st\<lparr>isInitialized := b\<rparr>) i v
       = (fst (updateStatus st i v), (snd (updateStatus st i v))\<lparr>isInitialized := b\<rparr>)
   \<and> archiveIncident (st\<lparr>isInitialized := b\<rparr>) i
       = (fst (archiveIncident st i), (snd (archiveIncident st i))\<lparr>isInitialized := b\<rparr>)
   \<and> resetArchivedIncident (st\<lparr>isInitialized := b\<rparr>) i
       = (fst (resetArchivedIncident st i), (snd (resetArchivedIncident st i))\<lparr>isInitialized := b\<rparr>)
   \<and> save (st\<lparr>isInitialized := b\<rparr>)
       = (fst (save st), (snd (save st))\<lparr>isInitialized := b\<rparr>)
   \<and> initializeStore (st\<lparr>isInitialized := True\<rparr>) = (Inr (), st\<lparr>isInitialized := True\<rparr>)
   \<and> incidents (module_start d w) = []
   \<and> isInitialized (module_start d w) = False"
proof -
  have l: "listAll (st\<lparr>isInitialized := b\<rparr>) a = listAll st a"
    by (simp add: listAll_def)
  have s: "save (st\<lparr>isInitialized := b\<rparr>)
       = (fst (save st), (snd (save st))\<lparr>isInitialized := b\<rparr>)"
    unfolding save_def by (rule saveToFile_isInitialized)
  have n: "initializeStore (st\<lparr>isInitialized := True\<rparr>) = (Inr (), st\<lparr>isInitialized := True\<rparr>)"
    by (simp add: initializeStore_def)
  have m: "incidents (module_start d w) = []" "isInitialized (module_start d w) = False"
    by (simp_all add: module_start_def)
  show ?thesis
    by (intro conjI)
      (rule l findById_isInitialized createIncident_isInitialized updateStatus_isInitialized
        archiveIncident_isInitialized resetArchivedIncident_isInitialized s n m)+
qed

section \<open>Listing\<close>

text \<open>
  Claim C7. \<^verbatim>\<open>listAll(true)\<close> returns the whole collection and \<^verbatim>\<open>listAll(false)\<close>
  exactly the incidents whose status is not ARCHIVED, both in the order of the
  collection; \<^verbatim>\<open>GET /\<close> answers with that list and leaves the store and the data file
  as they were.
\<close>

theorem listAll_filters_in_order:
  "listAll st True = incidents st
   \<and> listAll st False = filter (\<lambda>i. get_prop i ''status'' \<noteq> JStr ''ARCHIVED'') (incidents st)
   \<and> subseq (listAll st False) (incidents st)
   \<and> (\<forall>i. i \<in> set (listAll st False)
          \<longleftrightarrow> i \<in> set (incidents st) \<and> get_prop i ''status'' \<noteq> JStr ''ARCHIVED'')
   \<and> get_incidents st q
       = (\<lparr>code = 200, body = ListBody (listAll st (q = JStr ''true''))\<rparr>, st)"
  by (simp add: listAll_def get_incidents_def)

section \<open>Bulk upload\<close>

lemma created_shift:
  "map (\<lambda>(n, row). f (gen n) row) (enumerate 0 (r # rs))
     = f (gen 0) r # map (\<lambda>(n, row). f (gen (Suc n)) row) (enumerate 0 rs)"
proof -
  have "enumerate (Suc 0) rs = map (apfst Suc) (enumerate 0 rs)"
    by (rule enumerate_Suc_eq)
  then show ?thesis
    by (simp add: comp_def case_prod_beta)
qed

lemma bulk_rows_writable:
  "writable st \<Longrightarrow>
   \<exists>st'. bulk_rows gen records c s st
           = (Inr (c + length (filter (\<lambda>row. is_ok (validateCreateIncident row)) records),
                   s + length (filter (\<lambda>row. \<not> is_ok (validateCreateIncident row)) records)), st')
      \<and> incidents st' = incidents st @
           map (\<lambda>(n, row). new_incident (fst (gen n)) (snd (gen n))
                              (sanitized (validateCreateIncident row)))
             (enumerate 0 (filter (\<lambda>row. is_ok (validateCreateIncident row)) records))
      \<and> writable st'"
proof (induction records arbitrary: gen c s st)
  case Nil
  then show ?case by simp
next
  case (Cons row records)
  show ?case
  proof (cases "is_ok (validateCreateIncident row)")
    case False
    with Cons.IH [OF Cons.prems, of gen c "s + 1"] show ?thesis by simp
  next
    case True
    let ?x = "new_incident (fst (gen 0)) (snd (gen 0)) (sanitized (validateCreateIncident row))"
    let ?st1 = "st\<lparr>incidents := incidents st @ [?x],
                   disk := Json (map json_object (incidents st @ [?x]))\<rparr>"
    have c1: "createIncident st (fst (gen 0)) (snd (gen 0)) (sanitized (validateCreateIncident row))
                = (Inr ?x, ?st1)"
      using Cons.prems by (rule createIncident_writable)
    have w1: "writable ?st1" using Cons.prems by simp
    from Cons.IH [OF w1, of "\<lambda>n. gen (Suc n)" "c + 1" s]
    obtain st' where
      run: "bulk_rows (\<lambda>n. gen (Suc n)) records (c + 1) s ?st1
             = (Inr (c + 1 + length (filter (\<lambda>row. is_ok (validateCreateIncident row)) records),
                     s + length (filter (\<lambda>row. \<not> is_ok (validateCreateIncident row)) records)), st')"
      and inc: "incidents st' = incidents ?st1 @
           map (\<lambda>(n, row). new_incident (fst (gen (Suc n))) (snd (gen (Suc n)))
                              (sanitized (validateCreateIncident row)))
             (enumerate 0 (filter (\<lambda>row. is_ok (validateCreateIncident row)) records))"
      and w: "writable st'"
      by blast
    have shift: "map (\<lambda>(n, row). new_incident (fst (gen n)) (snd (gen n))
                              (sanitized (validateCreateIncident row)))
             (enumerate 0 (row # filter (\<lambda>row. is_ok (validateCreateIncident row)) records))
        = ?x # map (\<lambda>(n, row). new_incident (fst (gen (Suc n))) (snd (gen (Suc n)))
                              (sanitized (validateCreateIncident row)))
             (enumerate 0 (filter (\<lambda>row. is_ok (validateCreateIncident row)) records))"
      by (rule created_shift
          [of "\<lambda>g row. new_incident (fst g) (snd g) (sanitized (validateCreateIncident row))"])
    have "bulk_rows gen (row # records) c s st
           = (Inr (c + length (filter (\<lambda>row. is_ok (validateCreateIncident row)) (row # records)),
                   s + length (filter (\<lambda>row. \<not> is_ok (validateCreateIncident row)) (row # records))), st')"
      using True c1 run by simp
    moreover have "incidents st' = incidents st @
           map (\<lambda>(n, row). new_incident (fst (gen n)) (snd (gen n))
                              (sanitized (validateCreateIncident row)))
             (enumerate 0 (filter (\<lambda>row. is_ok (validateCreateIncident row)) (row # records)))"
      using True inc shift by simp
    ultimately show ?thesis using w by blast
  qed
qed

lemma post_incident_400:
  "is_ok (validateCreateIncident row) \<longleftrightarrow> code (fst (post_incident s u t row)) \<noteq> 400"
proof (cases "is_ok (validateCreateIncident row)")
  case False
  then show ?thesis by (simp add: post_incident_def Let_def)
next
  case True
  obtain r st1 where c: "createIncident s u t (sanitized (validateCreateIncident row)) = (r, st1)"
    by fastforce
  from createIncident_result [OF c] True c show ?thesis
    by (auto simp: post_incident_def Let_def)
qed

text \<open>
  Claim C9. With a data file that can be written, the bulk upload goes through the
  records in order, checks each with \<^verbatim>\<open>validateCreateIncident\<close> (the check of
  \<^verbatim>\<open>POST /\<close>), appends one incident for each valid record, in the order of the
  records, and skips each invalid one; it answers with the number of records, of created
  incidents and of skipped records, and created and skipped add up to the number of
  records.
\<close>

theorem bulk_upload_summary:
  assumes "writable st"
  shows "\<exists>st'.
      bulk_upload st gen (Records records)
        = (\<lparr>code = 200,
            body = SummaryBody
              \<lparr>totalRows = length records,
               created = length (filter (\<lambda>row. is_ok (validateCreateIncident row)) records),
               skipped = length (filter (\<lambda>row. \<not> is_ok (validateCreateIncident row)) records)\<rparr>\<rparr>,
           st')
      \<and> incidents st' = incidents st @
           map (\<lambda>(n, row). new_incident (fst (gen n)) (snd (gen n))
                              (sanitized (validateCreateIncident row)))
             (enumerate 0 (filter (\<lambda>row. is_ok (validateCreateIncident row)) records))
      \<and> length (incidents st')
           = length (incidents st)
             + length (filter (\<lambda>row. is_ok (validateCreateIncident row)) records)
      \<and> length (filter (\<lambda>row. is_ok (validateCreateIncident row)) records)
         + length (filter (\<lambda>row. \<not> is_ok (validateCreateIncident row)) records)
           = length records
      \<and> (\<forall>row s u t. is_ok (validateCreateIncident row)
            \<longleftrightarrow> code (fst (post_incident s u t row)) \<noteq> 400)"
proof -
  from bulk_rows_writable [OF assms, of gen records 0 0]
  obtain st' where
    run: "bulk_rows gen records 0 0 st
           = (Inr (length (filter (\<lambda>row. is_ok (validateCreateIncident row)) records),
                   length (filter (\<lambda>row. \<not> is_ok (validateCreateIncident row)) records)), st')"
    and inc: "incidents st' = incidents st @
           map (\<lambda>(n, row). new_incident (fst (gen n)) (snd (gen n))
                              (sanitized (validateCreateIncident row)))
             (enumerate 0 (filter (\<lambda>row. is_ok (validateCreateIncident row)) records))"
    by auto
  have resp: "bulk_upload st gen (Records records)
        = (\<lparr>code = 200,
            body = SummaryBody
              \<lparr>totalRows = length records,
               created = length (filter (\<lambda>row. is_ok (validateCreateIncident row)) records),
               skipped = length (filter (\<lambda>row. \<not> is_ok (validateCreateIncident row)) records)\<rparr>\<rparr>,
           st')"
    using run by (simp add: bulk_upload_def)
  have len: "length (incidents st')
           = length (incidents st)
             + length (filter (\<lambda>row. is_ok (validateCreateIncident row)) records)"
    using inc by simp
  have total: "length (filter (\<lambda>row. is_ok (validateCreateIncident row)) records)
         + length (filter (\<lambda>row. \<not> is_ok (validateCreateIncident row)) records)
           = length records"
    by (rule sum_length_filter_compl)
  have same: "\<forall>row s u t. is_ok (validateCreateIncident row)
            \<longleftrightarrow> code (fst (post_incident s u t row)) \<noteq> 400"
    using post_incident_400 by blast
  show ?thesis
    apply (rule exI [of _ st'])
    apply (intro conjI)
        apply (rule resp)
       apply (rule inc)
      apply (rule len)
     apply (rule total)
    apply (rule same)
    done
qed

lemma validateCreateIncident_missing_title:
  "\<not> is_ok (validateCreateIncident
     [''description'' \<mapsto> JStr ''Paper stuck in tray'',
      ''category'' \<mapsto> JStr ''IT'', ''severity'' \<mapsto> JStr ''HIGH''])"
  by (simp add: validateCreateIncident_def title_errors_def get_prop_def)

theorem bulk_upload_summary_witness:
  "writable (module_start Absent True)
   \<and> (\<exists>st'.
        bulk_upload (module_start Absent True) (\<lambda>n. (replicate (Suc n) CHR ''u'', ''t''))
          (Records [[''title'' \<mapsto> JStr ''Printer jam'', ''description'' \<mapsto> JStr ''Paper stuck in tray'',
                  ''category'' \<mapsto> JStr ''IT'', ''severity'' \<mapsto> JStr ''HIGH''],
                 [''description'' \<mapsto> JStr ''Paper stuck in tray'',
                  ''category'' \<mapsto> JStr ''IT'', ''severity'' \<mapsto> JStr ''HIGH''],
                 [''title'' \<mapsto> JStr ''Printer jam'', ''description'' \<mapsto> JStr ''Paper stuck in tray'',
                  ''category'' \<mapsto> JStr ''IT'', ''severity'' \<mapsto> JStr ''HIGH'']])
          = (\<lparr>code = 200,
              body = SummaryBody \<lparr>totalRows = 3, created = 2, skipped = 1\<rparr>\<rparr>, st')
        \<and> length (incidents st') = length (incidents (module_start Absent True)) + 2
        \<and> length (incidents st') = 2)"
proof -
  let ?S = "module_start Absent True"
  let ?G = "\<lambda>n::nat. (replicate (Suc n) CHR ''u'', ''t'')"
  let ?V = "[''title'' \<mapsto> JStr ''Printer jam'', ''description'' \<mapsto> JStr ''Paper stuck in tray'',
             ''category'' \<mapsto> JStr ''IT'', ''severity'' \<mapsto> JStr ''HIGH'']"
  let ?I = "[''description'' \<mapsto> JStr ''Paper stuck in tray'',
             ''category'' \<mapsto> JStr ''IT'', ''severity'' \<mapsto> JStr ''HIGH'']"
  have w: "writable ?S" by (simp add: module_start_def)
  have e: "incidents ?S = []" by (simp add: module_start_def)
  have c: "length (filter (\<lambda>row. is_ok (validateCreateIncident row)) [?V, ?I, ?V]) = 2"
    using validateCreateIncident_example validateCreateIncident_missing_title by simp
  have k: "length (filter (\<lambda>row. \<not> is_ok (validateCreateIncident row)) [?V, ?I, ?V]) = 1"
    using validateCreateIncident_example validateCreateIncident_missing_title by simp
  from bulk_upload_summary [OF w, of ?G "[?V, ?I, ?V]"]
  obtain st' where
    a: "bulk_upload ?S ?G (Records [?V, ?I, ?V])
        = (\<lparr>code = 200,
            body = SummaryBody
              \<lparr>totalRows = length [?V, ?I, ?V],
               created = length (filter (\<lambda>row. is_ok (validateCreateIncident row)) [?V, ?I, ?V]),
               skipped = length (filter (\<lambda>row. \<not> is_ok (validateCreateIncident row)) [?V, ?I, ?V])\<rparr>\<rparr>,
           st')"
    and b: "length (incidents st')
           = length (incidents ?S)
             + length (filter (\<lambda>row. is_ok (validateCreateIncident row)) [?V, ?I, ?V])"
    by blast
  from a have a': "bulk_upload ?S ?G (Records [?V, ?I, ?V])
        = (\<lparr>code = 200, body = SummaryBody \<lparr>totalRows = 3, created = 2, skipped = 1\<rparr>\<rparr>, st')"
    unfolding c k by simp
  from b have b': "length (incidents st') = length (incidents ?S) + 2"
    unfolding c .
  from b' e have b'': "length (incidents st') = 2" by simp
  from w a' b' b'' show ?thesis by blast
qed

section \<open>Saving and loading\<close>

lemma get_prop_json_object: "get_prop (json_object obj) k = get_prop obj k"
  by (simp add: get_prop_def json_object_def split: option.splits jsval.splits)

lemma json_object_safe: "json_safe obj \<Longrightarrow> json_object obj = obj"
proof
  fix k
  assume "json_safe obj"
  then have "obj k \<noteq> Some JUndefined" by (simp add: json_safe_def)
  then show "json_object obj k = obj k"
    by (simp add: json_object_def split: option.splits jsval.splits)
qed

lemma json_safe_json_object: "json_safe (json_object obj)"
  by (simp add: json_safe_def json_object_def split: option.splits jsval.splits)

lemma map_json_object_safe: "list_all json_safe xs \<Longrightarrow> map json_object xs = xs"
  by (induction xs) (simp_all add: json_object_safe)

text \<open>The record created from a validated body has no undefined property.\<close>

lemma validated_not_undefined:
  assumes "is_ok (validateCreateIncident reqbody)"
  shows "get_prop reqbody ''title'' \<noteq> JUndefined" "get_prop reqbody ''description'' \<noteq> JUndefined"
    "get_prop reqbody ''category'' \<noteq> JUndefined" "get_prop reqbody ''severity'' \<noteq> JUndefined"
proof -
  from assms have t: "title_errors reqbody = []" and d: "description_errors reqbody = []"
    and c: "category_errors reqbody = []" and s: "severity_errors reqbody = []"
    by (simp_all add: validateCreateIncident_def Let_def)
  from t show "get_prop reqbody ''title'' \<noteq> JUndefined"
    by (auto simp: title_errors_def Let_def split: if_splits)
  from d show "get_prop reqbody ''description'' \<noteq> JUndefined"
    by (auto simp: description_errors_def Let_def split: if_splits)
  from c show "get_prop reqbody ''category'' \<noteq> JUndefined"
    by (auto simp: category_errors_def split: if_splits)
  from s show "get_prop reqbody ''severity'' \<noteq> JUndefined"
    by (auto simp: severity_errors_def split: if_splits)
qed

lemma validated_incident_safe:
  assumes "is_ok (validateCreateIncident reqbody)"
  shows "json_safe (new_incident uuid now (sanitized (validateCreateIncident reqbody)))"
  using validated_not_undefined [OF assms]
  by (simp add: json_safe_def new_incident_def validateCreateIncident_def Let_def map_add_def)

text \<open>
  Claim C8. When the write of the data file succeeds, \<^verbatim>\<open>initializeStore\<close> in a new
  process (and equally in the same one) loads a collection with as many incidents as were
  saved, in the same order, each with the same value for every field. The loaded objects
  are the saved ones themselves when no property of a saved incident is
  \<^verbatim>\<open>undefined\<close>, as for every incident created from validated data.
\<close>

theorem save_then_initialize_roundtrip:
  assumes "writable st"
  shows "\<exists>st1. saveToFile st = (Inr (), st1)
     \<and> (\<forall>w. \<exists>st2. initializeStore (module_start (disk st1) w) = (Inr (), st2)
            \<and> isInitialized st2
            \<and> length (incidents st2) = length (incidents st)
            \<and> (\<forall>n k. n < length (incidents st) \<longrightarrow>
                  get_prop (incidents st2 ! n) k = get_prop (incidents st ! n) k)
            \<and> (list_all json_safe (incidents st) \<longrightarrow> incidents st2 = incidents st))
     \<and> (\<forall>b. length (incidents (snd (initializeStore (st1\<lparr>isInitialized := b\<rparr>))))
               = length (incidents st)
            \<and> (\<forall>n k. n < length (incidents st) \<longrightarrow>
                  get_prop (incidents (snd (initializeStore (st1\<lparr>isInitialized := b\<rparr>))) ! n) k
                    = get_prop (incidents st ! n) k))"
proof -
  let ?st1 = "st\<lparr>disk := Json (map json_object (incidents st))\<rparr>"
  have s: "saveToFile st = (Inr (), ?st1)"
    using assms by (simp add: saveToFile_def)
  have fresh: "\<exists>st2. initializeStore (module_start (disk ?st1) w) = (Inr (), st2)
            \<and> isInitialized st2
            \<and> length (incidents st2) = length (incidents st)
            \<and> (\<forall>n k. n < length (incidents st) \<longrightarrow>
                  get_prop (incidents st2 ! n) k = get_prop (incidents st ! n) k)
            \<and> (list_all json_safe (incidents st) \<longrightarrow> incidents st2 = incidents st)" for w
    by (simp add: initializeStore_def module_start_def get_prop_json_object map_json_object_safe)
  have same: "length (incidents (snd (initializeStore (?st1\<lparr>isInitialized := b\<rparr>))))
               = length (incidents st)
            \<and> (\<forall>n k. n < length (incidents st) \<longrightarrow>
                  get_prop (incidents (snd (initializeStore (?st1\<lparr>isInitialized := b\<rparr>))) ! n) k
                    = get_prop (incidents st ! n) k)" for b
    by (simp add: initializeStore_def get_prop_json_object)
  show ?thesis
    apply (rule exI [of _ ?st1])
    apply (intro conjI allI)
      apply (rule s)
     apply (rule fresh)
    apply (rule same [THEN conjunct1])
    apply (rule same [THEN conjunct2, THEN spec, THEN spec])
    done
qed

theorem save_then_initialize_roundtrip_witness:
  "writable \<lparr>incidents = [[''id'' \<mapsto> JStr ''a'', ''status'' \<mapsto> JStr ''OPEN''],
                           [''id'' \<mapsto> JStr ''b'', ''status'' \<mapsto> JStr ''ARCHIVED'']],
              isInitialized = True, disk = Absent, writable = True\<rparr>
   \<and> list_all json_safe [[''id'' \<mapsto> JStr ''a'', ''status'' \<mapsto> JStr ''OPEN''],
                          [''id'' \<mapsto> JStr ''b'', ''status'' \<mapsto> JStr ''ARCHIVED'']]
   \<and> (\<exists>st1 st2.
        saveToFile \<lparr>incidents = [[''id'' \<mapsto> JStr ''a'', ''status'' \<mapsto> JStr ''OPEN''],
                                  [''id'' \<mapsto> JStr ''b'', ''status'' \<mapsto> JStr ''ARCHIVED'']],
                     isInitialized = True, disk = Absent, writable = True\<rparr> = (Inr (), st1)
        \<and> initializeStore (module_start (disk st1) True) = (Inr (), st2)
        \<and> length (incidents st2) = 2
        \<and> get_prop (incidents st2 ! 1) ''status'' = JStr ''ARCHIVED''
        \<and> incidents st2 = [[''id'' \<mapsto> JStr ''a'', ''status'' \<mapsto> JStr ''OPEN''],
                            [''id'' \<mapsto> JStr ''b'', ''status'' \<mapsto> JStr ''ARCHIVED'']])"
proof -
  let ?A = "[''id'' \<mapsto> JStr ''a'', ''status'' \<mapsto> JStr ''OPEN'']"
  let ?B = "[''id'' \<mapsto> JStr ''b'', ''status'' \<mapsto> JStr ''ARCHIVED'']"
  let ?S = "\<lparr>incidents = [?A, ?B], isInitialized = True, disk = Absent, writable = True\<rparr>"
  have w: "writable ?S" by simp
  have j: "list_all json_safe [?A, ?B]" by (simp add: json_safe_def)
  have i: "incidents ?S = [?A, ?B]" by simp
  from save_then_initialize_roundtrip [OF w]
  obtain st1 where
    s: "saveToFile ?S = (Inr (), st1)"
    and l: "\<forall>w. \<exists>st2. initializeStore (module_start (disk st1) w) = (Inr (), st2)
            \<and> isInitialized st2
            \<and> length (incidents st2) = length (incidents ?S)
            \<and> (\<forall>n k. n < length (incidents ?S) \<longrightarrow>
                  get_prop (incidents st2 ! n) k = get_prop (incidents ?S ! n) k)
            \<and> (list_all json_safe (incidents ?S) \<longrightarrow> incidents st2 = incidents ?S)"
    by blast
  from l [THEN spec, of True]
  obtain st2 where
    r: "initializeStore (module_start (disk st1) True) = (Inr (), st2)"
    and n: "length (incidents st2) = length (incidents ?S)"
    and f: "\<forall>n k. n < length (incidents ?S) \<longrightarrow>
                  get_prop (incidents st2 ! n) k = get_prop (incidents ?S ! n) k"
    and q: "list_all json_safe (incidents ?S) \<longrightarrow> incidents st2 = incidents ?S"
    by blast
  from n have n': "length (incidents st2) = 2" by simp
  from f [THEN spec, of 1, THEN spec, of "''status''"]
  have f': "get_prop (incidents st2 ! 1) ''status'' = JStr ''ARCHIVED''"
    by (simp add: get_prop_def)
  from q j have q': "incidents st2 = [?A, ?B]" by simp
  from w j s r n' f' q' show ?thesis by blast
qed

end
